theory Spec2Isabelle
  imports Complex_Main
begin

section \<open>Values, exceptions and the outside world\<close>

text \<open>
  The two source files are \<^verbatim>\<open>scripts/config.py\<close> (constants) and
  \<^verbatim>\<open>scripts/utils.py\<close> (the functions). The functions talk to the libraries
  \<^verbatim>\<open>requests\<close>, \<^verbatim>\<open>time\<close>, \<^verbatim>\<open>sqlite3\<close> and \<^verbatim>\<open>pandas\<close>. Their effects are
  made explicit: every function that has one takes a \<open>world\<close> and returns the new one,
  and the world records, in order, each sleep, each HTTP request and each database
  action.

  Python numbers are modelled by \<open>rat\<close> (the delays \<^verbatim>\<open>2.0\<close> and \<^verbatim>\<open>1.5\<close> are exact
  binary fractions), Python's unbounded \<^verbatim>\<open>int\<close> by \<open>int\<close>, and a point in time by
  the number of seconds since the epoch, a \<open>rat\<close>.
\<close>

datatype pyval =
    PNone
  | PBool bool
  | PNum rat
  | PStr string
  | PTime rat
  | PNaT
  | PList "pyval list"
  | PDict "(string \<times> pyval) list"

text \<open>
  The exception classes that the source tells apart: \<^verbatim>\<open>ValueError\<close> and
  \<^verbatim>\<open>TypeError\<close> are caught by name in \<^verbatim>\<open>_process_timestamp_column\<close>; every other
  subclass of \<^verbatim>\<open>Exception\<close> is \<open>OtherError\<close>. The string is \<^verbatim>\<open>str(e)\<close>.
\<close>

datatype exn = ValueError string | TypeError string | OtherError string

fun message :: "exn \<Rightarrow> string" where
  "message (ValueError m) = m"
| "message (TypeError m) = m"
| "message (OtherError m) = m"

text \<open>
  \<open>json r\<close> is what \<^verbatim>\<open>r.json()\<close> gives: the decoded body, or the exception raised
  when the body is not JSON.
\<close>

record response =
  status_code :: int
  resp_text :: string
  json :: "exn + pyval"

datatype outcome = Raised exn | Responded response

record request =
  url :: string
  headers :: "(string \<times> string) list"
  params :: "(string \<times> string) list option"

text \<open>
  A SQLite file: one that cannot be opened, one that opens but is no database (every
  statement fails), or a database, a list of named tables, each with its column names
  and its rows.
\<close>

type_synonym table = "string list \<times> pyval list list"

datatype store =
    Unopenable exn
  | Not_a_database exn
  | Database "(string \<times> table) list"

datatype event =
    Printed string
  | Slept rat
  | Requested request
  | Connected string
  | Executed string
  | Read_sql string "string option"
  | Closed string

text \<open>
  \<open>net w k r\<close> is what the network answers to the \<open>k\<close>-th request of the run when that
  request is \<open>r\<close>; \<open>disk w f\<close> is the file named \<open>f\<close>; \<open>sent\<close> counts the requests
  issued so far, \<open>clock\<close> is the wall clock in seconds (what \<^verbatim>\<open>datetime.now()\<close>
  reads) and \<open>trace\<close> the events so far, oldest first.
\<close>

record world =
  net :: "nat \<Rightarrow> request \<Rightarrow> outcome"
  disk :: "string \<Rightarrow> store"
  clock :: rat
  sent :: nat
  trace :: "event list"

definition print_line :: "string \<Rightarrow> world \<Rightarrow> world" where
  "print_line s w = w\<lparr>trace := trace w @ [Printed s]\<rparr>"

definition time_sleep :: "rat \<Rightarrow> world \<Rightarrow> world" where
  "time_sleep d w = w\<lparr>clock := clock w + d, trace := trace w @ [Slept d]\<rparr>"

text \<open>
  \<^verbatim>\<open>time.sleep\<close> raises instead of sleeping when the delay is negative
  (\<^verbatim>\<open>ValueError\<close>) or does not fit the C type of timestamps, nanoseconds in 64 bits
  (\<^verbatim>\<open>OverflowError\<close>); within about the uptime of the machine below that bound the
  system call refuses the delay as well (\<^verbatim>\<open>OSError\<close>). \<open>time_sleep\<close> is the sleep
  that takes place; a caller whose delay may be out of range asks \<open>sleepable\<close> first.
  The only delay of the source that the model tests is the backoff \<^verbatim>\<open>5 * 2 ** attempt\<close>
  of \<^verbatim>\<open>safe_api_request\<close>, which is far inside the range up to attempt 30 and far
  outside from attempt 31 on. The constant delays are inside it.
\<close>

definition sleepable :: "rat \<Rightarrow> bool" where
  "sleepable d = (0 \<le> d \<and> d * 1000000000 \<le> 2 ^ 63 - 1)"

definition requests_get :: "request \<Rightarrow> world \<Rightarrow> outcome \<times> world" where
  "requests_get r w =
     (net w (sent w) r, w\<lparr>sent := Suc (sent w), trace := trace w @ [Requested r]\<rparr>)"

subsection \<open>Constants of \<^verbatim>\<open>config.py\<close>\<close>

definition defi_llama_chart :: string where
  "defi_llama_chart = ''https://yields.llama.fi/chart/''"

definition DEFAULT_DB_FILENAME :: string where
  "DEFAULT_DB_FILENAME = ''data/defi_prime_rate.db''"

definition RATE_LIMIT_DELAY :: rat where
  "RATE_LIMIT_DELAY = 2"

definition RATE_LIMIT_RETRY_DELAY :: rat where
  "RATE_LIMIT_RETRY_DELAY = 5"

definition COINGECKO_FREE_TIER_DELAY :: rat where
  "COINGECKO_FREE_TIER_DELAY = 3 / 2"

section \<open>\<^verbatim>\<open>safe_api_request\<close>\<close>

text \<open>
  \<^verbatim>\<open>range(max_retries)\<close> is empty for a bound that is zero or negative.
\<close>

definition py_range :: "int \<Rightarrow> nat list" where
  "py_range n = [0..<nat n]"

text \<open>
  \<^verbatim>\<open>if api_key:\<close> holds for a string that is neither \<^verbatim>\<open>None\<close> nor empty.
\<close>

fun request_headers :: "string option \<Rightarrow> (string \<times> string) list" where
  "request_headers None = []"
| "request_headers (Some k) = (if k = [] then [] else [(''x-cg-pro-api-key'', k)])"

definition api_request ::
  "string \<Rightarrow> string option \<Rightarrow> (string \<times> string) list option \<Rightarrow> request" where
  "api_request u api_key ps = \<lparr>url = u, headers = request_headers api_key, params = ps\<rparr>"

text \<open>
  Lines 252 to 255, the handler \<^verbatim>\<open>except Exception\<close>: a sleep of \<^verbatim>\<open>RATE_LIMIT_DELAY\<close>
  unless the attempt is the last one.
\<close>

definition except_handler :: "int \<Rightarrow> nat \<Rightarrow> world \<Rightarrow> world" where
  "except_handler max_retries attempt w =
     (if int attempt < max_retries - 1 then time_sleep RATE_LIMIT_DELAY w else w)"

text \<open>
  The body of the \<^verbatim>\<open>for\<close> loop, run over the attempts that are left. The ways out of
  the \<^verbatim>\<open>try\<close> block are the branches after the request: an exception raised by
  \<^verbatim>\<open>requests.get\<close>, caught by the handler; status 429, where the backoff sleep either
  takes place (\<^verbatim>\<open>continue\<close>) or raises because the delay is out of range, which the
  same handler catches; and any other status (\<^verbatim>\<open>return response\<close>).

  The sleep of \<^verbatim>\<open>3 * attempt\<close> seconds before a request is modelled as taking place.
  Its delay leaves the range of \<^verbatim>\<open>time.sleep\<close> at attempt 3074457346 only, and a run
  gets there only after it has slept \<^verbatim>\<open>3 * k\<close> seconds before each earlier attempt
  \<open>k\<close>, more than 400 billion years in all. The messages printed by this function are
  left out of the trace.
\<close>

fun request_attempts ::
  "string \<Rightarrow> int \<Rightarrow> bool \<Rightarrow> string option \<Rightarrow> (string \<times> string) list option \<Rightarrow>
   nat list \<Rightarrow> world \<Rightarrow> response option \<times> world" where
  "request_attempts u max_retries is_coingecko api_key ps [] w = (None, w)"
| "request_attempts u max_retries is_coingecko api_key ps (attempt # rest) w =
     (let w1 = (if is_coingecko \<and> attempt > 0
                then time_sleep (3 * of_nat attempt) w else w);
          (out, w2) = requests_get (api_request u api_key ps) w1
      in case out of
           Raised e \<Rightarrow>
             request_attempts u max_retries is_coingecko api_key ps rest
               (except_handler max_retries attempt w2)
         | Responded response \<Rightarrow>
             if status_code response = 429
             then (let wait_time = RATE_LIMIT_RETRY_DELAY * 2 ^ attempt
                   in if sleepable wait_time
                      then request_attempts u max_retries is_coingecko api_key ps rest
                             (time_sleep wait_time w2)
                      else request_attempts u max_retries is_coingecko api_key ps rest
                             (except_handler max_retries attempt w2))
             else (Some response,
                   if is_coingecko then time_sleep COINGECKO_FREE_TIER_DELAY w2 else w2))"

definition safe_api_request ::
  "string \<Rightarrow> int \<Rightarrow> bool \<Rightarrow> string option \<Rightarrow> (string \<times> string) list option \<Rightarrow>
   world \<Rightarrow> response option \<times> world" where
  "safe_api_request u max_retries is_coingecko api_key ps w =
     request_attempts u max_retries is_coingecko api_key ps (py_range max_retries) w"

subsection \<open>Vocabulary for the trace of a call\<close>

text \<open>
  Every attempt issues exactly one request, so the number of requests before a point of
  the trace of one call is the index of the attempt running there.
\<close>

fun count_requests :: "event list \<Rightarrow> nat" where
  "count_requests [] = 0"
| "count_requests (Requested r # es) = Suc (count_requests es)"
| "count_requests (e # es) = count_requests es"

fun slept_total :: "event list \<Rightarrow> rat" where
  "slept_total [] = 0"
| "slept_total (Slept d # es) = d + slept_total es"
| "slept_total (e # es) = slept_total es"

text \<open>The world after the events \<open>evs\<close> have happened in it.\<close>

definition advance :: "event list \<Rightarrow> world \<Rightarrow> world" where
  "advance evs w =
     w\<lparr>clock := clock w + slept_total evs, sent := sent w + count_requests evs,
       trace := trace w @ evs\<rparr>"

text \<open>
  \<open>answer w q j\<close> is the outcome of the \<open>j\<close>-th request of a call that starts in \<open>w\<close>;
  an attempt is \<open>retried\<close> when it ends in an exception or in a 429 response.
\<close>

definition answer :: "world \<Rightarrow> request \<Rightarrow> nat \<Rightarrow> outcome" where
  "answer w q j = net w (sent w + j) q"

definition retried :: "outcome \<Rightarrow> bool" where
  "retried out = (case out of Raised e \<Rightarrow> True | Responded resp \<Rightarrow> status_code resp = 429)"

definition returned :: "outcome \<Rightarrow> response option" where
  "returned out = (case out of Raised e \<Rightarrow> None | Responded resp \<Rightarrow> Some resp)"

definition before_request :: "bool \<Rightarrow> nat \<Rightarrow> event list" where
  "before_request cg a = (if cg \<and> a > 0 then [Slept (3 * of_nat a)] else [])"

definition handler_events :: "int \<Rightarrow> nat \<Rightarrow> event list" where
  "handler_events n a = (if int a < n - 1 then [Slept RATE_LIMIT_DELAY] else [])"

definition after_request :: "int \<Rightarrow> bool \<Rightarrow> nat \<Rightarrow> outcome \<Rightarrow> event list" where
  "after_request n cg a out =
     (case out of
        Raised e \<Rightarrow> handler_events n a
      | Responded resp \<Rightarrow>
          if status_code resp = 429
          then (if sleepable (RATE_LIMIT_RETRY_DELAY * 2 ^ a)
                then [Slept (RATE_LIMIT_RETRY_DELAY * 2 ^ a)] else handler_events n a)
          else if cg then [Slept COINGECKO_FREE_TIER_DELAY] else [])"

definition attempt_events :: "int \<Rightarrow> bool \<Rightarrow> nat \<Rightarrow> request \<Rightarrow> outcome \<Rightarrow> event list" where
  "attempt_events n cg a q out = before_request cg a @ Requested q # after_request n cg a out"

definition segment :: "int \<Rightarrow> bool \<Rightarrow> request \<Rightarrow> nat \<Rightarrow> world \<Rightarrow> nat \<Rightarrow> event list" where
  "segment n cg q a w j = attempt_events n cg (a + j) q (answer w q j)"

section \<open>Tables\<close>

text \<open>
  A pandas \<^verbatim>\<open>DataFrame\<close> is a list of named columns, each with its dtype, and a list
  of rows; a row is its index value and its cells, one per column. The only dtypes the
  source looks at are "datetime" (with its timezone, if any) and "anything else".
  A \<^verbatim>\<open>Series\<close> or an \<^verbatim>\<open>Index\<close> is a dtype with its values.
\<close>

datatype dtype = Object | Datetime "string option"

type_synonym series = "dtype \<times> pyval list"

record frame =
  columns :: "(string \<times> dtype) list"
  index_dtype :: dtype
  rows :: "(pyval \<times> pyval list) list"

fun position :: "string \<Rightarrow> (string \<times> 'a) list \<Rightarrow> nat option" where
  "position c [] = None"
| "position c ((n, d) # cs) = (if n = c then Some 0 else map_option Suc (position c cs))"

definition cell :: "nat \<Rightarrow> pyval list \<Rightarrow> pyval" where
  "cell k cs = (if k < length cs then cs ! k else PNone)"

definition without :: "nat \<Rightarrow> 'a list \<Rightarrow> 'a list" where
  "without k xs = take k xs @ drop (Suc k) xs"

definition column_names :: "frame \<Rightarrow> string list" where
  "column_names df = map fst (columns df)"

text \<open>\<^verbatim>\<open>df[c]\<close>: the column, or \<^verbatim>\<open>KeyError\<close>.\<close>

definition get_column :: "string \<Rightarrow> frame \<Rightarrow> exn + series" where
  "get_column c df =
     (case position c (columns df) of
        None \<Rightarrow> Inl (OtherError (''KeyError: '' @ c))
      | Some k \<Rightarrow> Inr (snd (columns df ! k), map (\<lambda>(i, cs). cell k cs) (rows df)))"

text \<open>
  \<^verbatim>\<open>df[c] = s\<close>: the column is replaced where it stands, or added as the last one.
  The values that \<^verbatim>\<open>pd.to_datetime\<close> returns are as many as it was given; values of
  any other number are refused with \<^verbatim>\<open>ValueError\<close>, as pandas refuses a list of the
  wrong length.
\<close>

definition set_column :: "string \<Rightarrow> series \<Rightarrow> frame \<Rightarrow> exn + frame" where
  "set_column c s df =
     (if length (snd s) \<noteq> length (rows df)
      then Inl (ValueError ''Length of values does not match length of index'')
      else case position c (columns df) of
             Some k \<Rightarrow>
               Inr (df\<lparr>columns := (columns df)[k := (c, fst s)],
                       rows := map (\<lambda>((i, cs), v). (i, cs[k := v])) (zip (rows df) (snd s))\<rparr>)
           | None \<Rightarrow>
               Inr (df\<lparr>columns := columns df @ [(c, fst s)],
                       rows := map (\<lambda>((i, cs), v). (i, cs @ [v])) (zip (rows df) (snd s))\<rparr>))"

text \<open>
  \<^verbatim>\<open>df.set_index(c, inplace=True)\<close>: the column becomes the index and leaves the
  columns; \<^verbatim>\<open>KeyError\<close> when there is no such column.
\<close>

definition set_index :: "string \<Rightarrow> frame \<Rightarrow> exn + frame" where
  "set_index c df =
     (case position c (columns df) of
        None \<Rightarrow> Inl (OtherError (''KeyError: '' @ c))
      | Some k \<Rightarrow>
          Inr (df\<lparr>columns := without k (columns df),
                  index_dtype := snd (columns df ! k),
                  rows := map (\<lambda>(i, cs). (cell k cs, without k cs)) (rows df)\<rparr>))"

definition index_series :: "frame \<Rightarrow> series" where
  "index_series df = (index_dtype df, map fst (rows df))"

text \<open>
  \<^verbatim>\<open>df.index = s\<close>: \<^verbatim>\<open>ValueError\<close> when the number of values is not the number of
  rows.
\<close>

definition assign_index :: "series \<Rightarrow> frame \<Rightarrow> exn + frame" where
  "assign_index s df =
     (if length (snd s) \<noteq> length (rows df)
      then Inl (ValueError ''Length mismatch'')
      else Inr (df\<lparr>index_dtype := fst s,
                   rows := map (\<lambda>((i, cs), v). (v, cs)) (zip (rows df) (snd s))\<rparr>))"

text \<open>
  \<^verbatim>\<open>df.index.tz\<close> exists on a datetime index only; on any other index the attribute
  access raises \<^verbatim>\<open>AttributeError\<close>.
\<close>

definition index_tz :: "frame \<Rightarrow> exn + string option" where
  "index_tz df =
     (case index_dtype df of
        Datetime tz \<Rightarrow> Inr tz
      | Object \<Rightarrow> Inl (OtherError ''AttributeError: 'Index' object has no attribute 'tz' ''))"

text \<open>
  \<^verbatim>\<open>df.index.tz_localize(None)\<close> drops the timezone and keeps the wall-clock values.
\<close>

definition tz_localize_None :: "frame \<Rightarrow> frame" where
  "tz_localize_None df = df\<lparr>index_dtype := Datetime None\<rparr>"

text \<open>
  \<^verbatim>\<open>df.index >= cutoff\<close>, row by row: a timestamp is compared, \<^verbatim>\<open>NaT\<close> compares
  false.
\<close>

fun at_or_after :: "rat \<Rightarrow> pyval \<Rightarrow> bool" where
  "at_or_after cutoff (PTime t) = (cutoff \<le> t)"
| "at_or_after cutoff v = False"

definition rows_from :: "rat \<Rightarrow> frame \<Rightarrow> frame" where
  "rows_from cutoff df = df\<lparr>rows := filter (\<lambda>(i, cs). at_or_after cutoff i) (rows df)\<rparr>"

text \<open>\<^verbatim>\<open>df.empty\<close>: no rows or no columns. \<^verbatim>\<open>pd.DataFrame()\<close> has neither.\<close>

definition is_empty :: "frame \<Rightarrow> bool" where
  "is_empty df = (rows df = [] \<or> columns df = [])"

definition empty_frame :: frame where
  "empty_frame = \<lparr>columns = [], index_dtype = Object, rows = []\<rparr>"

text \<open>The timestamps of the index, in row order.\<close>

fun index_times :: "(pyval \<times> pyval list) list \<Rightarrow> rat list" where
  "index_times [] = []"
| "index_times ((PTime t, cs) # rs) = t # index_times rs"
| "index_times (r # rs) = index_times rs"

text \<open>
  The three entry points of pandas that turn outside data into tables and timestamps.
  What they do on a given input is pandas' business, not this repository's, so the
  functions below take them as a parameter: \<open>DataFrame\<close> is \<^verbatim>\<open>pd.DataFrame(data)\<close> on a
  list, \<open>to_datetime_s\<close> is \<^verbatim>\<open>pd.to_datetime(s, unit='s')\<close> and \<open>to_datetime\<close> is
  \<^verbatim>\<open>pd.to_datetime(s)\<close>.
\<close>

record pandas =
  DataFrame :: "pyval list \<Rightarrow> exn + frame"
  to_datetime_s :: "series \<Rightarrow> exn + series"
  to_datetime :: "series \<Rightarrow> exn + series"

text \<open>Sequencing of steps that may raise.\<close>

definition and_then :: "exn + 'a \<Rightarrow> ('a \<Rightarrow> exn + 'b) \<Rightarrow> exn + 'b" where
  "and_then r f = (case r of Inl e \<Rightarrow> Inl e | Inr x \<Rightarrow> f x)"

subsection \<open>Decimal numerals in messages\<close>

definition digit :: "nat \<Rightarrow> char" where
  "digit d = char_of (48 + d)"

fun show_nat :: "nat \<Rightarrow> string" where
  "show_nat n = (if n < 10 then [digit n] else show_nat (n div 10) @ [digit (n mod 10)])"

definition show_int :: "int \<Rightarrow> string" where
  "show_int i = (if i < 0 then CHR ''-'' # show_nat (nat (- i)) else show_nat (nat i))"

section \<open>\<^verbatim>\<open>fetch_pool_chart_data\<close>\<close>

text \<open>
  \<^verbatim>\<open>except (ValueError, TypeError)\<close> catches these two classes and lets every other
  exception pass.
\<close>

fun caught_by_name :: "exn \<Rightarrow> bool" where
  "caught_by_name (ValueError m) = True"
| "caught_by_name (TypeError m) = True"
| "caught_by_name (OtherError m) = False"

text \<open>An interpretation fails when it raises one of the two exceptions caught by name.\<close>

definition fails_by_name :: "exn + 'a \<Rightarrow> bool" where
  "fails_by_name r = (case r of Inl e \<Rightarrow> caught_by_name e | Inr x \<Rightarrow> False)"

text \<open>
  The two statements \<^verbatim>\<open>df['date'] = pd.to_datetime(df['timestamp'], unit='s')\<close> and
  \<^verbatim>\<open>df['date'] = pd.to_datetime(df['timestamp'])\<close>. Each either raises and leaves
  \<open>df\<close> as it was, or gives \<open>df\<close> with the new column.
\<close>

definition epoch_seconds_attempt :: "pandas \<Rightarrow> frame \<Rightarrow> exn + frame" where
  "epoch_seconds_attempt lib df =
     and_then (get_column ''timestamp'' df) (\<lambda>ts.
     and_then (to_datetime_s lib ts) (\<lambda>dates.
     set_column ''date'' dates df))"

definition date_string_attempt :: "pandas \<Rightarrow> frame \<Rightarrow> exn + frame" where
  "date_string_attempt lib df =
     and_then (get_column ''timestamp'' df) (\<lambda>ts.
     and_then (to_datetime lib ts) (\<lambda>dates.
     set_column ''date'' dates df))"

text \<open>
  The rest of \<^verbatim>\<open>_process_timestamp_column\<close>, after the \<^verbatim>\<open>try\<close> statement: the
  \<^verbatim>\<open>date\<close> column becomes the index and loses its timezone.
\<close>

definition index_by_date :: "frame \<Rightarrow> exn + frame" where
  "index_by_date df =
     and_then (set_index ''date'' df) (\<lambda>df1.
     and_then (index_tz df1) (\<lambda>tz.
     Inr (if tz \<noteq> None then tz_localize_None df1 else df1)))"

text \<open>The message of \<^verbatim>\<open>_process_timestamp_column\<close> for the pool \<open>pool_name\<close>.\<close>

definition could_not_parse :: "string \<Rightarrow> event" where
  "could_not_parse pool_name =
     Printed (''Could not parse timestamp format for pool '' @ pool_name)"

text \<open>
  \<^verbatim>\<open>_process_timestamp_column\<close>. The result is \<open>Inl e\<close> when the exception \<open>e\<close> leaves
  the function, \<open>Inr None\<close> when it returns \<^verbatim>\<open>None\<close>, and \<open>Inr (Some df)\<close> when it
  returns the table.
\<close>

definition process_timestamp_column ::
  "pandas \<Rightarrow> frame \<Rightarrow> string \<Rightarrow> world \<Rightarrow> (exn + frame option) \<times> world" where
  "process_timestamp_column lib df pool_name w =
     (case epoch_seconds_attempt lib df of
        Inr df1 \<Rightarrow> (map_sum id Some (index_by_date df1), w)
      | Inl e1 \<Rightarrow>
          if caught_by_name e1
          then (case date_string_attempt lib df of
                  Inr df1 \<Rightarrow> (map_sum id Some (index_by_date df1), w)
                | Inl e2 \<Rightarrow>
                    if caught_by_name e2
                    then (Inr None,
                          print_line (''Could not parse timestamp format for pool '' @ pool_name) w)
                    else (Inl e2, w))
          else (Inl e1, w))"

text \<open>\<^verbatim>\<open>pool_name or pool_id\<close>: an empty name counts as no name.\<close>

fun display_name :: "string option \<Rightarrow> string \<Rightarrow> string" where
  "display_name None pool_id = pool_id"
| "display_name (Some n) pool_id = (if n = [] then pool_id else n)"

text \<open>
  \<^verbatim>\<open>if isinstance(data, dict) and 'data' in data: data = data['data']\<close>
\<close>

fun unwrap :: "pyval \<Rightarrow> pyval" where
  "unwrap (PDict kvs) = (case map_of kvs ''data'' of Some d \<Rightarrow> d | None \<Rightarrow> PDict kvs)"
| "unwrap v = v"

definition chart_request :: "string \<Rightarrow> request" where
  "chart_request pool_id = \<lparr>url = defi_llama_chart @ pool_id, headers = [], params = None\<rparr>"

text \<open>
  Line 62, \<^verbatim>\<open>datetime.now() - timedelta(days=days)\<close>. \<^verbatim>\<open>timedelta\<close> raises
  \<^verbatim>\<open>OverflowError\<close> for more than 999999999 days either way, and the subtraction
  raises it when the result is not a date of the years 1 to 9999. The epoch is
  62135596800 seconds after the start of year 1 and 253402300800 seconds before the
  end of year 9999.
\<close>

definition timedelta_days :: "int \<Rightarrow> exn + rat" where
  "timedelta_days days =
     (if \<bar>days\<bar> \<le> 999999999 then Inr (86400 * of_int days)
      else Inl (OtherError (''days='' @ show_int days @ ''; must have magnitude <= 999999999'')))"

definition datetime_minus :: "rat \<Rightarrow> rat \<Rightarrow> exn + rat" where
  "datetime_minus now delta =
     (if - 62135596800 \<le> now - delta \<and> now - delta < 253402300800 then Inr (now - delta)
      else Inl (OtherError ''date value out of range''))"

text \<open>
  Lines 48 to 75: what is done with the response, once it is there. An exception
  raised on the way leaves the \<^verbatim>\<open>try\<close> block.
\<close>

definition chart_table ::
  "pandas \<Rightarrow> string \<Rightarrow> int \<Rightarrow> response \<Rightarrow> world \<Rightarrow> (exn + frame option) \<times> world" where
  "chart_table lib name days response w =
     (if status_code response = 200
      then case json response of
             Inl e \<Rightarrow> (Inl e, w)
           | Inr body \<Rightarrow>
               (case unwrap body of
                  PList (x # xs) \<Rightarrow>
                    (case DataFrame lib (x # xs) of
                       Inl e \<Rightarrow> (Inl e, w)
                     | Inr df \<Rightarrow>
                         if ''timestamp'' \<in> set (column_names df)
                         then case process_timestamp_column lib df name w of
                                (Inl e, w1) \<Rightarrow> (Inl e, w1)
                              | (Inr None, w1) \<Rightarrow> (Inr None, w1)
                              | (Inr (Some df1), w1) \<Rightarrow>
                                  (case and_then (timedelta_days days) (datetime_minus (clock w1)) of
                                     Inl e \<Rightarrow> (Inl e, w1)
                                   | Inr cutoff_date \<Rightarrow>
                                       (let df2 = rows_from cutoff_date df1
                                        in (Inr (Some df2),
                                            print_line (''Successfully fetched ''
                                              @ show_nat (length (rows df2))
                                              @ '' data points for '' @ name) w1)))
                         else (Inr None,
                               print_line (''No timestamp found in data for '' @ name) w))
                | _ \<Rightarrow> (Inr None, print_line (''Unexpected data format for '' @ name) w))
      else (Inr None,
            print_line (''Error fetching chart data for '' @ name @ '': ''
              @ show_int (status_code response)) w))"

text \<open>
  Lines 39 to 46: the request, and one more after a sleep when the first answer is 429.
  The result is the answer that the rest of the function works on, or the exception
  raised by \<^verbatim>\<open>requests.get\<close>. The delay in the message is the decimal form of
  \<^verbatim>\<open>RATE_LIMIT_RETRY_DELAY\<close>.
\<close>

definition request_chart :: "string \<Rightarrow> string \<Rightarrow> world \<Rightarrow> outcome \<times> world" where
  "request_chart pool_id name w =
     (let w0 = print_line (''Fetching data for '' @ name @ ''...'') w;
          (out, w1) = requests_get (chart_request pool_id) w0
      in case out of
           Raised e \<Rightarrow> (Raised e, w1)
         | Responded response \<Rightarrow>
             if status_code response = 429
             then (let w2 = print_line (''Rate limited for '' @ name @ '', waiting 5 seconds...'') w1;
                       w3 = time_sleep RATE_LIMIT_RETRY_DELAY w2
                   in requests_get (chart_request pool_id) w3)
             else (Responded response, w1))"

text \<open>Lines 39 to 75, the body of the \<^verbatim>\<open>try\<close> statement.\<close>

definition fetch_attempt ::
  "pandas \<Rightarrow> string \<Rightarrow> string \<Rightarrow> int \<Rightarrow> world \<Rightarrow> (exn + frame option) \<times> world" where
  "fetch_attempt lib pool_id name days w =
     (case request_chart pool_id name w of
        (Raised e, w1) \<Rightarrow> (Inl e, w1)
      | (Responded response, w1) \<Rightarrow> chart_table lib name days response w1)"

text \<open>
  The whole function: \<^verbatim>\<open>except Exception as e\<close> turns every exception into a
  message and \<^verbatim>\<open>None\<close>.
\<close>

definition fetch_pool_chart_data ::
  "pandas \<Rightarrow> string \<Rightarrow> string option \<Rightarrow> int \<Rightarrow> world \<Rightarrow> frame option \<times> world" where
  "fetch_pool_chart_data lib pool_id pool_name days w =
     (let name = display_name pool_name pool_id
      in case fetch_attempt lib pool_id name days w of
           (Inr r, w1) \<Rightarrow> (r, w1)
         | (Inl e, w1) \<Rightarrow>
             (None, print_line (''Error fetching chart data for '' @ name @ '': '' @ message e) w1))"

section \<open>\<^verbatim>\<open>load_data_from_db\<close>\<close>

text \<open>
  \<^verbatim>\<open>sqlite3.connect\<close>, \<^verbatim>\<open>cursor.execute\<close>, \<^verbatim>\<open>pd.read_sql\<close> and
  \<^verbatim>\<open>conn.close\<close> on the files of the world. A connection is named by its file. The
  rows that \<^verbatim>\<open>fetchall\<close> returns are only printed, so \<open>cursor_execute\<close> returns
  nothing. None of the four changes a file.
\<close>

definition sqlite3_connect :: "string \<Rightarrow> world \<Rightarrow> (exn + string) \<times> world" where
  "sqlite3_connect db_filename w =
     (case disk w db_filename of
        Unopenable e \<Rightarrow> (Inl e, w)
      | Not_a_database e \<Rightarrow> (Inr db_filename, w\<lparr>trace := trace w @ [Connected db_filename]\<rparr>)
      | Database ts \<Rightarrow> (Inr db_filename, w\<lparr>trace := trace w @ [Connected db_filename]\<rparr>))"

definition cursor_execute :: "string \<Rightarrow> string \<Rightarrow> world \<Rightarrow> (exn + unit) \<times> world" where
  "cursor_execute conn sql w =
     (case disk w conn of
        Unopenable e \<Rightarrow> Inl e
      | Not_a_database e \<Rightarrow> Inl e
      | Database ts \<Rightarrow> Inr (),
      w\<lparr>trace := trace w @ [Executed sql]\<rparr>)"

definition conn_close :: "string \<Rightarrow> world \<Rightarrow> world" where
  "conn_close conn w = w\<lparr>trace := trace w @ [Closed conn]\<rparr>"

text \<open>
  A table as pandas reads it: every column under its name, the rows numbered from 0.
\<close>

definition table_frame :: "table \<Rightarrow> frame" where
  "table_frame t =
     \<lparr>columns = map (\<lambda>n. (n, Object)) (fst t), index_dtype = Object,
      rows = zip (map (\<lambda>i. PNum (of_nat i)) [0..<length (snd t)]) (snd t)\<rparr>"

text \<open>
  \<^verbatim>\<open>pd.read_sql('SELECT * FROM t', conn, index_col=c)\<close>: it fails when the table does
  not exist and when \<open>c\<close> is given and is not one of its columns.
\<close>

definition select_all :: "store \<Rightarrow> string \<Rightarrow> string option \<Rightarrow> exn + frame" where
  "select_all s t index_col =
     (case s of
        Unopenable e \<Rightarrow> Inl e
      | Not_a_database e \<Rightarrow> Inl e
      | Database ts \<Rightarrow>
          (case map_of ts t of
             None \<Rightarrow> Inl (OtherError (''no such table: '' @ t))
           | Some tb \<Rightarrow>
               (case index_col of
                  None \<Rightarrow> Inr (table_frame tb)
                | Some c \<Rightarrow> set_index c (table_frame tb))))"

definition read_sql :: "string \<Rightarrow> string \<Rightarrow> string option \<Rightarrow> world \<Rightarrow> (exn + frame) \<times> world" where
  "read_sql conn t index_col w =
     (select_all (disk w conn) t index_col, w\<lparr>trace := trace w @ [Read_sql t index_col]\<rparr>)"

text \<open>The two statements that the function executes on its cursor.\<close>

definition list_tables_sql :: string where
  "list_tables_sql = ''SELECT name FROM sqlite_master WHERE type='table';''"

definition table_info_sql :: string where
  "table_info_sql = ''PRAGMA table_info(pool_data);''"

text \<open>
  The table \<open>t\<close> read with its \<open>k\<close>-th column as the index: what \<open>set_index\<close>
  makes of \<open>table_frame t\<close> for the name of that column.
\<close>

definition keyed_table :: "nat \<Rightarrow> table \<Rightarrow> frame" where
  "keyed_table k t =
     \<lparr>columns = without k (map (\<lambda>n. (n, Object)) (fst t)), index_dtype = Object,
      rows = map (\<lambda>r. (cell k r, without k r)) (snd t)\<rparr>"

text \<open>\<^verbatim>\<open>str.lower\<close> on ASCII letters, and the substring test \<^verbatim>\<open>sub in s\<close>.\<close>

definition lower_char :: "char \<Rightarrow> char" where
  "lower_char c =
     (let n = (of_char c :: nat) in if 65 \<le> n \<and> n \<le> 90 then char_of (n + 32) else c)"

definition lower :: "string \<Rightarrow> string" where
  "lower s = map lower_char s"

fun contains :: "string \<Rightarrow> string \<Rightarrow> bool" where
  "contains sub [] = (sub = [])"
| "contains sub (c # cs) = (take (length sub) (c # cs) = sub \<or> contains sub cs)"

text \<open>
  Lines 134 to 139: with at least one column, the first one becomes the index. The
  test on its name is in the source, and both of its branches are the same statement.
\<close>

definition promote_first_column :: "frame \<Rightarrow> exn + frame" where
  "promote_first_column df =
     (case columns df of
        [] \<Rightarrow> Inr df
      | (first_col, d) # cs \<Rightarrow>
          if contains ''date'' (lower first_col) \<or> contains ''time'' (lower first_col)
          then set_index first_col df
          else set_index first_col df)"

text \<open>
  Lines 129 to 147. The first \<^verbatim>\<open>except\<close> is bare and catches whatever the first
  read raises. Inside the handler of the second, \<^verbatim>\<open>PRAGMA table_info\<close> may itself
  raise, which leaves the function's inner \<^verbatim>\<open>try\<close>; otherwise the handler returns
  \<^verbatim>\<open>(None, None)\<close>, here \<open>Inr None\<close>.
\<close>

definition read_pool_data :: "string \<Rightarrow> world \<Rightarrow> (exn + frame option) \<times> world" where
  "read_pool_data conn w =
     (let (r1, w1) = read_sql conn ''pool_data'' (Some ''index'') w
      in case r1 of
           Inr merged_df \<Rightarrow> (Inr (Some merged_df), w1)
         | Inl e1 \<Rightarrow>
             (let (r2, w2) = read_sql conn ''pool_data'' None w1
              in case and_then r2 promote_first_column of
                   Inr merged_df \<Rightarrow> (Inr (Some merged_df), w2)
                 | Inl e \<Rightarrow>
                     (let (r3, w3) = cursor_execute conn table_info_sql w2
                      in case r3 of
                           Inl e3 \<Rightarrow> (Inl e3, w3)
                         | Inr u \<Rightarrow> (Inr None, w3))))"

text \<open>
  Lines 149 to 153: an index that is not a datetime index is converted; when the
  conversion raises, the table stays as it was.
\<close>

definition coerce_index :: "pandas \<Rightarrow> frame \<Rightarrow> frame" where
  "coerce_index lib df =
     (case index_dtype df of
        Datetime tz \<Rightarrow> df
      | Object \<Rightarrow>
          (case and_then (to_datetime lib (index_series df)) (\<lambda>s. assign_index s df) of
             Inr df1 \<Rightarrow> df1
           | Inl e \<Rightarrow> df))"

text \<open>
  Lines 121 to 164, the body of the outer \<^verbatim>\<open>try\<close> statement. The messages printed
  by this function are left out of the trace.
\<close>

definition load_attempt ::
  "pandas \<Rightarrow> string \<Rightarrow> world \<Rightarrow> (exn + frame option \<times> frame option) \<times> world" where
  "load_attempt lib db_filename w =
     (case sqlite3_connect db_filename w of
        (Inl e, w1) \<Rightarrow> (Inl e, w1)
      | (Inr conn, w1) \<Rightarrow>
          (case cursor_execute conn list_tables_sql w1 of
             (Inl e, w2) \<Rightarrow> (Inl e, w2)
           | (Inr u, w2) \<Rightarrow>
               (case read_pool_data conn w2 of
                  (Inl e, w3) \<Rightarrow> (Inl e, w3)
                | (Inr None, w3) \<Rightarrow> (Inr (None, None), w3)
                | (Inr (Some df), w3) \<Rightarrow>
                    (let merged_df = coerce_index lib df;
                         (r, w4) = read_sql conn ''pool_metadata'' None w3;
                         metadata_df = (case r of Inr m \<Rightarrow> m | Inl e \<Rightarrow> empty_frame);
                         w5 = conn_close conn w4
                     in (Inr (Some merged_df, Some metadata_df), w5)))))"

text \<open>
  The whole function: the outer \<^verbatim>\<open>except Exception\<close> returns \<^verbatim>\<open>(None, None)\<close>.
\<close>

definition load_data_from_db ::
  "pandas \<Rightarrow> string \<Rightarrow> world \<Rightarrow> (frame option \<times> frame option) \<times> world" where
  "load_data_from_db lib db_filename w =
     (case load_attempt lib db_filename w of
        (Inr r, w1) \<Rightarrow> (r, w1)
      | (Inl e, w1) \<Rightarrow> ((None, None), w1))"

section \<open>\<^verbatim>\<open>validate_dataframe\<close>\<close>

text \<open>
  \<^verbatim>\<open>if required_columns:\<close> holds for a list that is neither \<^verbatim>\<open>None\<close> nor empty.
  The message printed for missing columns is left out.
\<close>

definition validate_dataframe :: "frame option \<Rightarrow> string list option \<Rightarrow> bool" where
  "validate_dataframe df required_columns =
     (case df of
        None \<Rightarrow> False
      | Some d \<Rightarrow>
          if is_empty d then False
          else (case required_columns of
                  Some (c # cs) \<Rightarrow>
                    (let missing_cols = filter (\<lambda>col. col \<notin> set (column_names d)) (c # cs)
                     in if missing_cols \<noteq> [] then False else True)
                | _ \<Rightarrow> True))"

section \<open>Concrete worlds for evaluation\<close>

text \<open>
  A network that answers the requests of a run from a fixed script, and refuses the
  connection once the script is used up.
\<close>

definition scripted :: "outcome list \<Rightarrow> nat \<Rightarrow> request \<Rightarrow> outcome" where
  "scripted outs k r =
     (if k < length outs then outs ! k else Raised (OtherError ''connection refused''))"

definition world_of :: "outcome list \<Rightarrow> rat \<Rightarrow> world" where
  "world_of outs now =
     \<lparr>net = scripted outs, disk = (\<lambda>f. Database []), clock = now, sent = 0, trace = []\<rparr>"


definition too_many_requests :: response where
  "too_many_requests =
     \<lparr>status_code = 429, resp_text = ''Too Many Requests'',
      json = Inl (ValueError ''Expecting value: line 1 column 1 (char 0)'')\<rparr>"

definition ok_response :: response where
  "ok_response = \<lparr>status_code = 200, resp_text = ''[]'', json = Inr (PList [])\<rparr>"

definition pools_request :: request where
  "pools_request = \<lparr>url = ''https://yields.llama.fi/pools'', headers = [], params = None\<rparr>"

definition ping_request :: request where
  "ping_request =
     \<lparr>url = ''https://api.coingecko.com/api/v3/ping'', headers = [], params = None\<rparr>"

text \<open>One 429 answer, then a 200 answer; and a network that refuses every connection.\<close>

definition throttled_once :: world where
  "throttled_once = world_of [Responded too_many_requests, Responded ok_response] 1700000000"

definition unreachable :: world where
  "unreachable = world_of [] 1700000000"

text \<open>
  A network that refuses the first 31 requests, answers the next one with 429 and the
  one after it with 200.
\<close>

definition late_throttle :: world where
  "late_throttle =
     (world_of [] 1700000000)
       \<lparr>net := (\<lambda>k r. if k < 31 then Raised (OtherError ''connection refused'')
                      else if k = 31 then Responded too_many_requests
                      else Responded ok_response)\<rparr>"

text \<open>
  A stand-in for pandas on the data used for evaluation below: records that are JSON
  objects, columns of numbers and nulls, and columns of the date strings listed in
  \<open>date_strings\<close>. There \<^verbatim>\<open>pd.DataFrame\<close> makes one column per key, in the order in
  which the keys first appear, and one row per record; \<^verbatim>\<open>pd.to_datetime(s, unit='s')\<close>
  reads a number as seconds since the epoch and refuses a string that is not a number;
  \<^verbatim>\<open>pd.to_datetime(s)\<close> reads a number as nanoseconds since the epoch and a date
  string as midnight of that day; a null becomes \<^verbatim>\<open>NaT\<close>. On other data the stand-in
  reports an error, which need not be what pandas does: the general theorems hold for
  every \<open>lib\<close> and do not use it.
\<close>

fun first_seen :: "string list \<Rightarrow> string list \<Rightarrow> string list" where
  "first_seen seen [] = []"
| "first_seen seen (k # ks) =
     (if k \<in> set seen then first_seen seen ks else k # first_seen (k # seen) ks)"

fun record_keys :: "pyval \<Rightarrow> string list" where
  "record_keys (PDict kvs) = map fst kvs"
| "record_keys v = []"

fun record_row :: "string list \<Rightarrow> pyval \<Rightarrow> pyval list" where
  "record_row keys (PDict kvs) =
     map (\<lambda>k. case map_of kvs k of Some v \<Rightarrow> v | None \<Rightarrow> PNone) keys"
| "record_row keys v = []"

fun is_record :: "pyval \<Rightarrow> bool" where
  "is_record (PDict kvs) = True"
| "is_record v = False"

definition records_frame :: "pyval list \<Rightarrow> exn + frame" where
  "records_frame recs =
     (if list_all is_record recs
      then (let keys = first_seen [] (concat (map record_keys recs))
            in Inr \<lparr>columns = map (\<lambda>k. (k, Object)) keys, index_dtype = Object,
                    rows = zip (map (\<lambda>i. PNum (of_nat i)) [0..<length recs])
                               (map (record_row keys) recs)\<rparr>)
      else Inl (OtherError ''records of this shape are not modelled''))"

fun is_number_or_null :: "pyval \<Rightarrow> bool" where
  "is_number_or_null (PNum n) = True"
| "is_number_or_null PNone = True"
| "is_number_or_null v = False"

fun stamp :: "rat \<Rightarrow> pyval \<Rightarrow> pyval" where
  "stamp unit (PNum n) = PTime (n * unit)"
| "stamp unit v = PNaT"

definition numbers_as :: "rat \<Rightarrow> series \<Rightarrow> exn + series" where
  "numbers_as unit s =
     (case fst s of
        Datetime tz \<Rightarrow> Inr s
      | Object \<Rightarrow>
          if list_all is_number_or_null (snd s)
          then Inr (Datetime None, map (stamp unit) (snd s))
          else Inl (ValueError ''values of this kind are not modelled''))"

definition date_strings :: "(string \<times> rat) list" where
  "date_strings = [(''2023-11-13'', 1699833600), (''2023-11-14'', 1699920000)]"

fun is_date_string :: "pyval \<Rightarrow> bool" where
  "is_date_string (PStr s) = (map_of date_strings s \<noteq> None)"
| "is_date_string v = False"

fun midnight :: "pyval \<Rightarrow> pyval" where
  "midnight (PStr s) = (case map_of date_strings s of Some t \<Rightarrow> PTime t | None \<Rightarrow> PNaT)"
| "midnight v = PNaT"

definition dates_or_numbers :: "series \<Rightarrow> exn + series" where
  "dates_or_numbers s =
     (if fst s = Object \<and> snd s \<noteq> [] \<and> list_all is_date_string (snd s)
      then Inr (Datetime None, map midnight (snd s))
      else numbers_as (1 / 1000000000) s)"

definition plain_pandas :: pandas where
  "plain_pandas =
     \<lparr>DataFrame = records_frame, to_datetime_s = numbers_as 1,
      to_datetime = dates_or_numbers\<rparr>"

text \<open>
  Tables and files: a small chart table; a cache file with both tables, the column
  \<^verbatim>\<open>index\<close> standing second in \<^verbatim>\<open>pool_data\<close>; one whose \<^verbatim>\<open>pool_data\<close> has no
  column of that name; one whose \<^verbatim>\<open>pool_data\<close> table is missing.
\<close>

definition apy_frame :: frame where
  "apy_frame =
     \<lparr>columns = [(''timestamp'', Object), (''apy'', Object)], index_dtype = Object,
      rows = [(PNum 0, [PNum 1699990000, PNum 5]), (PNum 1, [PNum 1699980000, PNum 4])]\<rparr>"

definition pool_table :: table where
  "pool_table = ([''USDC'', ''index''], [[PNum 5, PNum 1699980000], [PNum 6, PNum 1699990000]])"

definition dated_table :: table where
  "dated_table = ([''day'', ''USDC''], [[PNum 1699980000, PNum 5], [PNum 1699990000, PNum 6]])"

definition metadata_table :: table where
  "metadata_table = ([''pool_id'', ''name''], [[PStr ''aa70268e'', PStr ''USDC'']])"

definition cache_tables :: "(string \<times> table) list" where
  "cache_tables = [(''pool_data'', pool_table), (''pool_metadata'', metadata_table)]"

definition dated_tables :: "(string \<times> table) list" where
  "dated_tables = [(''pool_data'', dated_table), (''pool_metadata'', metadata_table)]"

definition metadata_tables :: "(string \<times> table) list" where
  "metadata_tables = [(''pool_metadata'', metadata_table)]"

definition cache_world :: world where
  "cache_world = (world_of [] 1700000000)\<lparr>disk := (\<lambda>f. Database cache_tables)\<rparr>"

definition dated_world :: world where
  "dated_world = (world_of [] 1700000000)\<lparr>disk := (\<lambda>f. Database dated_tables)\<rparr>"

definition metadata_only :: world where
  "metadata_only = (world_of [] 1700000000)\<lparr>disk := (\<lambda>f. Database metadata_tables)\<rparr>"

text \<open>
  Chart answers for the pool \<^verbatim>\<open>USDC\<close> of \<^verbatim>\<open>config.py\<close>: five records with epoch
  timestamps, the first older than one day at the time of the call, the others not in
  ascending order, two of them equal and the last one in the future; two records dated
  by strings; one record whose timestamp is no date at all. The chart is served at once
  in \<open>chart_world\<close> and after one 429 answer in \<open>throttled_chart\<close>.
\<close>

definition usdc_pool :: string where
  "usdc_pool = ''aa70268e-4b52-42bf-a116-608b370f9501''"

definition chart_records :: "pyval list" where
  "chart_records =
     [PDict [(''timestamp'', PNum 1690000000), (''apy'', PNum 3)],
      PDict [(''timestamp'', PNum 1699990000), (''apy'', PNum 5)],
      PDict [(''timestamp'', PNum 1699980000), (''apy'', PNum 4)],
      PDict [(''timestamp'', PNum 1699980000), (''apy'', PNum (9 / 2))],
      PDict [(''timestamp'', PNum 1700050000), (''apy'', PNum 6)]]"

definition dated_records :: "pyval list" where
  "dated_records =
     [PDict [(''timestamp'', PStr ''2023-11-13''), (''apy'', PNum 4)],
      PDict [(''timestamp'', PStr ''2023-11-14''), (''apy'', PNum 5)]]"

definition garbled_records :: "pyval list" where
  "garbled_records = [PDict [(''timestamp'', PStr ''not a date''), (''apy'', PNum 5)]]"

definition chart_response :: "pyval list \<Rightarrow> response" where
  "chart_response recs =
     \<lparr>status_code = 200, resp_text = [],
      json = Inr (PDict [(''status'', PStr ''success''), (''data'', PList recs)])\<rparr>"

definition chart_world :: "pyval list \<Rightarrow> world" where
  "chart_world recs = world_of [Responded (chart_response recs)] 1700000000"

definition throttled_chart :: "pyval list \<Rightarrow> world" where
  "throttled_chart recs =
     world_of [Responded too_many_requests, Responded (chart_response recs)] 1700000000"

text \<open>
  The table that \<^verbatim>\<open>pd.DataFrame\<close> makes of \<open>chart_records\<close>, the same table indexed by
  date, and the rows of it that are not older than one day at the time of the call.
\<close>

definition chart_frame :: frame where
  "chart_frame =
     \<lparr>columns = [(''timestamp'', Object), (''apy'', Object)], index_dtype = Object,
      rows = [(PNum 0, [PNum 1690000000, PNum 3]),
              (PNum 1, [PNum 1699990000, PNum 5]),
              (PNum 2, [PNum 1699980000, PNum 4]),
              (PNum 3, [PNum 1699980000, PNum (9 / 2)]),
              (PNum 4, [PNum 1700050000, PNum 6])]\<rparr>"

definition recent_rows :: "(pyval \<times> pyval list) list" where
  "recent_rows =
     [(PTime 1699990000, [PNum 1699990000, PNum 5]),
      (PTime 1699980000, [PNum 1699980000, PNum 4]),
      (PTime 1699980000, [PNum 1699980000, PNum (9 / 2)]),
      (PTime 1700050000, [PNum 1700050000, PNum 6])]"

definition chart_by_date :: frame where
  "chart_by_date =
     \<lparr>columns = [(''timestamp'', Object), (''apy'', Object)], index_dtype = Datetime None,
      rows = (PTime 1690000000, [PNum 1690000000, PNum 3]) # recent_rows\<rparr>"

definition dated_frame :: frame where
  "dated_frame =
     \<lparr>columns = [(''timestamp'', Object), (''apy'', Object)], index_dtype = Object,
      rows = [(PNum 0, [PStr ''2023-11-13'', PNum 4]),
              (PNum 1, [PStr ''2023-11-14'', PNum 5])]\<rparr>"

definition garbled_frame :: frame where
  "garbled_frame =
     \<lparr>columns = [(''timestamp'', Object), (''apy'', Object)], index_dtype = Object,
      rows = [(PNum 0, [PStr ''not a date'', PNum 5])]\<rparr>"

text \<open>
  Four records, the third without a timestamp (a JSON \<^verbatim>\<open>null\<close>, which pandas reads as
  \<^verbatim>\<open>NaN\<close> and \<^verbatim>\<open>pd.to_datetime\<close> as \<^verbatim>\<open>NaT\<close>): the table made of them, the same
  table indexed by date, and the rows that are not older than one day.
\<close>

definition sparse_records :: "pyval list" where
  "sparse_records =
     [PDict [(''timestamp'', PNum 1690000000), (''apy'', PNum 3)],
      PDict [(''timestamp'', PNum 1699990000), (''apy'', PNum 5)],
      PDict [(''timestamp'', PNone), (''apy'', PNum 4)],
      PDict [(''timestamp'', PNum 1699980000), (''apy'', PNum (9 / 2))]]"

definition sparse_frame :: frame where
  "sparse_frame =
     \<lparr>columns = [(''timestamp'', Object), (''apy'', Object)], index_dtype = Object,
      rows = [(PNum 0, [PNum 1690000000, PNum 3]),
              (PNum 1, [PNum 1699990000, PNum 5]),
              (PNum 2, [PNone, PNum 4]),
              (PNum 3, [PNum 1699980000, PNum (9 / 2)])]\<rparr>"

definition sparse_by_date :: frame where
  "sparse_by_date =
     \<lparr>columns = [(''timestamp'', Object), (''apy'', Object)], index_dtype = Datetime None,
      rows = [(PTime 1690000000, [PNum 1690000000, PNum 3]),
              (PTime 1699990000, [PNum 1699990000, PNum 5]),
              (PNaT, [PNone, PNum 4]),
              (PTime 1699980000, [PNum 1699980000, PNum (9 / 2)])]\<rparr>"

definition sparse_recent :: "(pyval \<times> pyval list) list" where
  "sparse_recent =
     [(PTime 1699990000, [PNum 1699990000, PNum 5]),
      (PTime 1699980000, [PNum 1699980000, PNum (9 / 2)])]"

section \<open>Unfolding the definitions on concrete data\<close>

lemmas load_defs =
  load_data_from_db_def load_attempt_def sqlite3_connect_def cursor_execute_def
  read_pool_data_def read_sql_def select_all_def conn_close_def Let_def and_then_def
  promote_first_column_def set_index_def table_frame_def coerce_index_def index_series_def
  assign_index_def cell_def without_def empty_frame_def

lemmas example_defs =
  cache_world_def dated_world_def metadata_only_def world_of_def pool_table_def
  dated_table_def metadata_table_def plain_pandas_def numbers_as_def
  cache_tables_def dated_tables_def metadata_tables_def dates_or_numbers_def date_strings_def

lemmas fetch_defs =
  fetch_pool_chart_data_def fetch_attempt_def request_chart_def chart_table_def requests_get_def
  time_sleep_def
  print_line_def Let_def process_timestamp_column_def epoch_seconds_attempt_def
  date_string_attempt_def index_by_date_def and_then_def get_column_def set_column_def
  set_index_def index_tz_def tz_localize_None_def rows_from_def cell_def without_def
  column_names_def chart_request_def timedelta_days_def datetime_minus_def

lemmas chart_defs =
  chart_world_def throttled_chart_def too_many_requests_def RATE_LIMIT_RETRY_DELAY_def
  chart_response_def chart_records_def dated_records_def garbled_records_def
  world_of_def scripted_def plain_pandas_def records_frame_def numbers_as_def
  dates_or_numbers_def date_strings_def usdc_pool_def chart_frame_def recent_rows_def
  chart_by_date_def dated_frame_def garbled_frame_def sparse_records_def sparse_frame_def
  sparse_by_date_def sparse_recent_def

section \<open>Lemmas on the trace of \<^verbatim>\<open>safe_api_request\<close>\<close>

lemma count_requests_append [simp]:
  "count_requests (xs @ ys) = count_requests xs + count_requests ys"
  by (induction xs rule: count_requests.induct) auto

lemma slept_total_append [simp]:
  "slept_total (xs @ ys) = slept_total xs + slept_total ys"
  by (induction xs rule: slept_total.induct) auto

lemma advance_simps [simp]:
  "net (advance evs w) = net w" "sent (advance evs w) = sent w + count_requests evs"
  "trace (advance evs w) = trace w @ evs" "clock (advance evs w) = clock w + slept_total evs"
  by (simp_all add: advance_def)

lemma advance_advance [simp]: "advance xs (advance ys w) = advance (ys @ xs) w"
  by (simp add: advance_def)

lemma advance_Nil [simp]: "advance [] w = w"
  by (simp add: advance_def)

lemma time_sleep_advance: "time_sleep d w = advance [Slept d] w"
  by (simp add: time_sleep_def advance_def)

lemma requests_get_advance: "requests_get r w = (net w (sent w) r, advance [Requested r] w)"
  by (simp add: requests_get_def advance_def)

lemma retried_simps [simp]:
  "retried (Raised e)" "retried (Responded resp) = (status_code resp = 429)"
  by (simp_all add: retried_def)

lemma except_handler_advance: "except_handler n a w = advance (handler_events n a) w"
  by (simp add: except_handler_def handler_events_def time_sleep_advance)

lemma request_attempts_step:
  "request_attempts u n cg key ps (a # rest) w =
     (let q = api_request u key ps;
          out = net w (sent w) q;
          w3 = advance (attempt_events n cg a q out) w
      in if retried out then request_attempts u n cg key ps rest w3 else (returned out, w3))"
  by (cases "net w (sent w) (api_request u key ps)")
     (simp_all add: Let_def time_sleep_advance requests_get_advance except_handler_advance
        before_request_def after_request_def retried_def returned_def attempt_events_def)

text \<open>The backoff delay is in the range of \<^verbatim>\<open>time.sleep\<close> up to attempt 30 and not beyond.\<close>

lemma sleepable_backoff: "sleepable (RATE_LIMIT_RETRY_DELAY * 2 ^ a) \<longleftrightarrow> a \<le> 30"
proof
  assume s: "sleepable (RATE_LIMIT_RETRY_DELAY * 2 ^ a)"
  show "a \<le> 30"
  proof (rule ccontr)
    assume "\<not> a \<le> 30"
    then have "31 \<le> a" by simp
    then have "(2::rat) ^ 31 \<le> 2 ^ a" by (intro power_increasing) simp_all
    with s show False by (simp add: sleepable_def RATE_LIMIT_RETRY_DELAY_def)
  qed
next
  assume "a \<le> 30"
  then have "(2::rat) ^ a \<le> 2 ^ 30" by (intro power_increasing) simp_all
  then show "sleepable (RATE_LIMIT_RETRY_DELAY * 2 ^ a)"
    by (simp add: sleepable_def RATE_LIMIT_RETRY_DELAY_def)
qed

lemma count_requests_attempt_events [simp]:
  "count_requests (attempt_events n cg a q out) = 1"
  by (auto simp: attempt_events_def before_request_def after_request_def handler_events_def
           split: outcome.splits)

lemma count_requests_before [simp]: "count_requests (before_request cg a) = 0"
  by (simp add: before_request_def)

lemma count_requests_handler [simp]: "count_requests (handler_events n a) = 0"
  by (simp add: handler_events_def)

lemma count_requests_after [simp]: "count_requests (after_request n cg a out) = 0"
  by (simp add: after_request_def split: outcome.splits)

lemma request_attempts_structure:
  assumes "request_attempts u n cg key ps [a..<m] w = (res, w')"
  defines "q \<equiv> api_request u key ps"
  shows "\<exists>k\<le>m - a.
           w' = advance (concat (map (segment n cg q a w) [0..<k])) w \<and>
           (\<forall>j. Suc j < k \<longrightarrow> retried (answer w q j)) \<and>
           (if k > 0 \<and> \<not> retried (answer w q (k - 1))
            then res = returned (answer w q (k - 1))
            else res = None \<and> k = m - a)"
  using assms(1)
proof (induction "m - a" arbitrary: a w)
  case 0
  then show ?case by simp
next
  case (Suc d)
  then have up: "[a..<m] = a # [Suc a..<m]" and d: "d = m - Suc a"
    by (auto simp: upt_conv_Cons)
  let ?out = "answer w q 0"
  let ?w3 = "advance (segment n cg q a w 0) w"
  have shift: "segment n cg q (Suc a) ?w3 j = segment n cg q a w (Suc j)" for j
    by (simp add: segment_def answer_def)
  have ans: "answer ?w3 q j = answer w q (Suc j)" for j
    by (simp add: segment_def answer_def)
  show ?case
  proof (cases "retried ?out")
    case False
    with Suc.prems have "res = returned ?out" "w' = ?w3"
      unfolding up request_attempts_step
      by (simp_all add: Let_def q_def answer_def segment_def)
    with False Suc.hyps(2) show ?thesis
      by (intro exI[where x=1]) simp
  next
    case True
    with Suc.prems have rec: "request_attempts u n cg key ps [Suc a..<m] ?w3 = (res, w')"
      unfolding up request_attempts_step
      by (simp add: Let_def q_def answer_def segment_def)
    from Suc.hyps(1)[OF d rec] obtain k where k: "k \<le> m - Suc a"
      "w' = advance (concat (map (segment n cg q (Suc a) ?w3) [0..<k])) ?w3"
      "\<forall>j. Suc j < k \<longrightarrow> retried (answer ?w3 q j)"
      "if k > 0 \<and> \<not> retried (answer ?w3 q (k - 1))
            then res = returned (answer ?w3 q (k - 1))
            else res = None \<and> k = m - Suc a"
      by blast
    have cat: "concat (map (segment n cg q a w) [0..<Suc k]) =
          segment n cg q a w 0 @ concat (map (segment n cg q (Suc a) ?w3) [0..<k])"
      unfolding shift by (simp add: upt_rec[of 0 "Suc k"] map_Suc_upt[symmetric] comp_def del: upt_Suc)
    have r: "\<forall>j. Suc j < Suc k \<longrightarrow> retried (answer w q j)"
    proof (intro allI impI)
      fix j assume "Suc j < Suc k"
      then show "retried (answer w q j)"
        using True k(3) ans by (cases j) auto
    qed
    have "Suc k \<le> m - a" using k(1) Suc.hyps(2) by simp
    moreover have "w' = advance (concat (map (segment n cg q a w) [0..<Suc k])) w"
      unfolding cat using k(2) by simp
    moreover have "if Suc k > 0 \<and> \<not> retried (answer w q (Suc k - 1))
            then res = returned (answer w q (Suc k - 1))
            else res = None \<and> Suc k = m - a"
    proof (cases k)
      case 0
      then show ?thesis using k(4) True Suc.hyps(2) by auto
    next
      case (Suc k')
      then show ?thesis using k(4) ans Suc.hyps(2) by auto
    qed
    ultimately show ?thesis using r by blast
  qed
qed


lemma no_request_in:
  "count_requests xs = 0 \<Longrightarrow> Requested r \<notin> set xs"
  by (induction xs rule: count_requests.induct) auto

lemma one_request_unique:
  assumes "count_requests B = 0" "count_requests A = 0"
    and "B @ Requested q # A = us @ Requested r # post"
  shows "us = B \<and> r = q \<and> post = A"
proof -
  from assms(3) consider
    (l) m where "B = us @ Requested r # m"
  | (e) "us = B" "r = q" "post = A"
  | (r) m where "us = B @ Requested q # m" "A = m @ Requested r # post"
    by (auto simp: append_eq_append_conv2 Cons_eq_append_conv append_eq_Cons_conv)
  then show ?thesis
  proof cases
    case l
    then show ?thesis using assms(1) by simp
  next
    case e
    then show ?thesis by simp
  next
    case r
    then show ?thesis using assms(2) by simp
  qed
qed

lemma segments_split:
  fixes B A :: "nat \<Rightarrow> event list"
  assumes free: "\<And>j. count_requests (B j) = 0" "\<And>j. count_requests (A j) = 0"
    and eq: "concat (map (\<lambda>j. B j @ Requested q # A j) [0..<k]) = pre @ Requested r # post"
  shows "count_requests pre < k \<and> r = q \<and>
         pre = concat (map (\<lambda>j. B j @ Requested q # A j) [0..<count_requests pre])
                 @ B (count_requests pre) \<and>
         post = A (count_requests pre)
                 @ concat (map (\<lambda>j. B j @ Requested q # A j) [Suc (count_requests pre)..<k])"
  using eq
proof (induction k arbitrary: post)
  case 0
  then show ?case by simp
next
  case (Suc k)
  let ?seg = "\<lambda>j. B j @ Requested q # A j"
  let ?X = "concat (map ?seg [0..<k])"
  have cX: "count_requests ?X = k"
    by (induction k) (simp_all add: free)
  from Suc.prems have "?X @ ?seg k = pre @ Requested r # post" by simp
  then obtain us where us:
    "(?X = pre @ us \<and> us @ ?seg k = Requested r # post) \<or>
     (?X @ us = pre \<and> ?seg k = us @ Requested r # post)"
    unfolding append_eq_append_conv2 by blast
  have "(\<exists>m. ?X = pre @ Requested r # m \<and> post = m @ ?seg k) \<or>
        (\<exists>us. pre = ?X @ us \<and> ?seg k = us @ Requested r # post)"
  proof (cases us)
    case Nil
    with us show ?thesis by auto
  next
    case (Cons e m)
    with us show ?thesis by auto
  qed
  then consider
    (old) m where "?X = pre @ Requested r # m" "post = m @ ?seg k"
  | (new) us where "pre = ?X @ us" "?seg k = us @ Requested r # post"
    by blast
  then show ?case
  proof cases
    case old
    from Suc.IH[OF old(1)[symmetric, THEN sym]] old(2)
    show ?thesis by auto
  next
    case new
    from one_request_unique[OF free(1) free(2) new(2)]
    have "us = B k" "r = q" "post = A k" by auto
    with new(1) cX show ?thesis by (simp add: free)
  qed
qed


lemma safe_api_request_events:
  assumes "safe_api_request u n cg key ps w = (res, w')"
  defines "q \<equiv> api_request u key ps"
  shows "\<exists>k\<le>nat n.
           w' = advance (concat (map (segment n cg q 0 w) [0..<k])) w \<and>
           (\<forall>j. Suc j < k \<longrightarrow> retried (answer w q j)) \<and>
           (if k > 0 \<and> \<not> retried (answer w q (k - 1))
            then res = returned (answer w q (k - 1))
            else res = None \<and> k = nat n)"
proof -
  have "request_attempts u n cg key ps [0..<nat n] w = (res, w')"
    using assms(1) by (simp add: safe_api_request_def py_range_def)
  from request_attempts_structure[OF this] show ?thesis
    unfolding q_def diff_zero .
qed

lemma segment_split:
  assumes "concat (map (segment n cg q 0 w) [0..<k]) = pre @ Requested r # post"
  defines "c \<equiv> count_requests pre"
  shows "c < k \<and> r = q \<and>
         pre = concat (map (segment n cg q 0 w) [0..<c]) @ before_request cg c \<and>
         post = after_request n cg c (answer w q c) @ concat (map (segment n cg q 0 w) [Suc c..<k])"
  using segments_split[of "before_request cg" "\<lambda>j. after_request n cg j (answer w q j)" q k pre r post]
    assms(1)
  unfolding c_def segment_def attempt_events_def by simp

lemma count_requests_segments [simp]:
  "count_requests (concat (map (segment n cg q a w) [i..<k])) = k - i"
  by (induction k) (simp_all add: segment_def Suc_diff_le)

lemma api_request_pools: "api_request ''https://yields.llama.fi/pools'' None None = pools_request"
  by (simp add: pools_request_def api_request_def)

lemma late_answers:
  "answer late_throttle r k =
     (if k < 31 then Raised (OtherError ''connection refused'')
      else if k = 31 then Responded too_many_requests else Responded ok_response)"
  by (simp add: answer_def late_throttle_def world_of_def)

section \<open>Properties of \<^verbatim>\<open>safe_api_request\<close>\<close>

text \<open>
  In the statements below the events of one call are split as
  \<open>pre @ Requested r # post\<close>: the request of the attempt with index
  \<open>count_requests pre\<close>, what the call did before it and what it did after it.
\<close>




text \<open>
  C6. An attempt that ends in an exception does not end the call: when it is not the
  last attempt of the budget, the call sleeps \<open>RATE_LIMIT_DELAY\<close> seconds and goes on
  to a further request; when it is the last, the call does nothing more. When every
  attempt of the budget ends in an exception or in a 429 response, the call returns
  \<^verbatim>\<open>None\<close>.
\<close>

theorem safe_api_request_transport_faults:
  assumes "safe_api_request u max_retries is_coingecko api_key ps w = (res, w')"
  shows "\<exists>evs. trace w' = trace w @ evs \<and>
    (\<forall>pre r post e.
        evs = pre @ Requested r # post \<and> answer w r (count_requests pre) = Raised e \<longrightarrow>
        (if int (count_requests pre) < max_retries - 1
         then \<exists>post'. post = Slept RATE_LIMIT_DELAY # post' \<and> 0 < count_requests post'
         else post = [])) \<and>
    ((\<forall>k<nat max_retries. retried (answer w (api_request u api_key ps) k)) \<longrightarrow> res = None)"
proof -
  let ?q = "api_request u api_key ps"
  let ?seg = "segment max_retries is_coingecko ?q 0 w"
  from safe_api_request_events[OF assms] obtain k where k: "k \<le> nat max_retries"
    "w' = advance (concat (map ?seg [0..<k])) w"
    "\<forall>j. Suc j < k \<longrightarrow> retried (answer w ?q j)"
    "if k > 0 \<and> \<not> retried (answer w ?q (k - 1))
            then res = returned (answer w ?q (k - 1))
            else res = None \<and> k = nat max_retries"
    by blast
  let ?evs = "concat (map ?seg [0..<k])"
  have tr: "trace w' = trace w @ ?evs" using k(2) by simp
  have fault: "if int (count_requests pre) < max_retries - 1
         then \<exists>post'. post = Slept RATE_LIMIT_DELAY # post' \<and> 0 < count_requests post'
         else post = []"
    if split: "?evs = pre @ Requested r # post"
      and raised: "answer w r (count_requests pre) = Raised e"
    for pre r post e
  proof -
    let ?c = "count_requests pre"
    from segment_split[OF split] have c: "?c < k" "r = ?q"
      and post: "post = after_request max_retries is_coingecko ?c (answer w ?q ?c)
                   @ concat (map ?seg [Suc ?c..<k])"
      by auto
    show ?thesis
    proof (cases "int ?c < max_retries - 1")
      case True
      have "Suc ?c < k"
      proof (rule ccontr)
        assume "\<not> Suc ?c < k"
        with c(1) have ck: "?c = k - 1" "k > 0" by auto
        with raised c(2) have "retried (answer w ?q (k - 1))" by simp
        with k(4) have "k = nat max_retries" by auto
        with ck True show False by auto
      qed
      then have "0 < count_requests (concat (map ?seg [Suc ?c..<k]))" by simp
      with True post raised c(2) show ?thesis by (simp add: after_request_def handler_events_def)
    next
      case False
      with c(1) k(1) have "Suc ?c = k" by auto
      with False post raised c(2) show ?thesis by (simp add: after_request_def handler_events_def)
    qed
  qed
  have none: "res = None" if all: "\<forall>j<nat max_retries. retried (answer w ?q j)"
  proof (cases "k > 0")
    case True
    with k(1) all have "retried (answer w ?q (k - 1))" by simp
    with k(4) show ?thesis by auto
  next
    case False
    with k(4) show ?thesis by auto
  qed
  show ?thesis
    using tr fault none by blast
qed

theorem safe_api_request_transport_faults_witness:
  "safe_api_request ''https://yields.llama.fi/pools'' 2 False None None unreachable
     = (None, advance [Requested pools_request, Slept 2, Requested pools_request] unreachable) \<and>
   answer unreachable pools_request 0 = Raised (OtherError ''connection refused'') \<and>
   int (count_requests []) < 2 - 1 \<and>
   (\<exists>post'. [Slept 2, Requested pools_request] = Slept RATE_LIMIT_DELAY # post' \<and>
             0 < count_requests post') \<and>
   retried (answer unreachable pools_request 0) \<and>
   retried (answer unreachable pools_request 1)"
proof -
  let ?w' = "advance [Requested pools_request, Slept 2, Requested pools_request] unreachable"
  have q: "api_request ''https://yields.llama.fi/pools'' None None = pools_request"
    by (simp add: pools_request_def api_request_def)
  have call: "safe_api_request ''https://yields.llama.fi/pools'' 2 False None None unreachable
                = (None, ?w')"
    by (simp add: safe_api_request_def py_range_def upt_rec request_attempts_step q Let_def
          unreachable_def world_of_def scripted_def
          attempt_events_def before_request_def after_request_def handler_events_def returned_def
          sleepable_def
          RATE_LIMIT_DELAY_def del: request_attempts.simps(2))
  have a: "answer unreachable pools_request k = Raised (OtherError ''connection refused'')" for k
    by (simp add: answer_def unreachable_def world_of_def scripted_def)
  from safe_api_request_transport_faults[OF call] obtain evs where
    tr: "trace ?w' = trace unreachable @ evs"
    and fault: "\<forall>pre r post e.
        evs = pre @ Requested r # post \<and> answer unreachable r (count_requests pre) = Raised e \<longrightarrow>
        (if int (count_requests pre) < 2 - 1
         then \<exists>post'. post = Slept RATE_LIMIT_DELAY # post' \<and> 0 < count_requests post'
         else post = [])"
    by blast
  from tr have evs: "evs = [] @ Requested pools_request # [Slept 2, Requested pools_request]"
    by simp
  have lt: "int (count_requests []) < 2 - 1" by simp
  from fault evs a[of "count_requests []"]
  have "if int (count_requests []) < 2 - 1
         then \<exists>post'. [Slept 2, Requested pools_request] = Slept RATE_LIMIT_DELAY # post' \<and>
                 0 < count_requests post'
         else [Slept 2, Requested pools_request] = []"
    by blast
  with lt have "\<exists>post'. [Slept 2, Requested pools_request] = Slept RATE_LIMIT_DELAY # post' \<and>
                 0 < count_requests post'"
    by (simp only: if_True)
  then show ?thesis using call a lt by simp
qed



text \<open>
  C10. With \<open>max_retries \<le> 0\<close> the loop body never runs: the result is \<^verbatim>\<open>None\<close> and
  the world is untouched, so no request was issued and nothing was slept.
\<close>

theorem safe_api_request_no_budget:
  "max_retries \<le> 0 \<Longrightarrow>
   safe_api_request u max_retries is_coingecko api_key ps w = (None, w)"
  by (simp add: safe_api_request_def py_range_def)

theorem safe_api_request_no_budget_witness:
  "(0::int) \<le> 0 \<and>
   safe_api_request ''https://api.coingecko.com/api/v3/ping'' 0 True None None
     (world_of [] 1700000000) = (None, world_of [] 1700000000)"
  using safe_api_request_no_budget
    [of 0 "''https://api.coingecko.com/api/v3/ping''" True None None "world_of [] 1700000000"]
  by simp

section \<open>Lemmas on \<^verbatim>\<open>fetch_pool_chart_data\<close>\<close>

declare show_nat.simps [simp del]

lemma process_timestamp_column_cases:
  "process_timestamp_column lib df name w =
     (if fails_by_name (epoch_seconds_attempt lib df) \<and> fails_by_name (date_string_attempt lib df)
      then (Inr None, w\<lparr>trace := trace w @ [could_not_parse name]\<rparr>)
      else (case epoch_seconds_attempt lib df of
              Inr df1 \<Rightarrow> map_sum id Some (index_by_date df1)
            | Inl e1 \<Rightarrow>
                if caught_by_name e1
                then (case date_string_attempt lib df of
                        Inr df2 \<Rightarrow> map_sum id Some (index_by_date df2)
                      | Inl e2 \<Rightarrow> Inl e2)
                else Inl e1, w))"
  by (simp add: process_timestamp_column_def fails_by_name_def could_not_parse_def print_line_def
        split: sum.splits)

lemma map_sum_Some_not_None [simp]: "map_sum id Some r \<noteq> Inr None"
  by (cases r) simp_all

lemma display_name_cases:
  "display_name pool_name pool_id =
     (case pool_name of None \<Rightarrow> pool_id | Some n \<Rightarrow> if n = [] then pool_id else n)"
  by (cases pool_name) simp_all

text \<open>The cutoff is there when the number of days and the date it leads to are in range.\<close>

lemma cutoff_in_range:
  "\<bar>days\<bar> \<le> 999999999 \<and> - 62135596800 \<le> now - 86400 * of_int days \<and>
     now - 86400 * of_int days < 253402300800 \<Longrightarrow>
   and_then (timedelta_days days) (datetime_minus now) = Inr (now - 86400 * of_int days)"
  by (simp add: and_then_def timedelta_days_def datetime_minus_def)

lemma cutoff_out_of_range:
  "\<not> (\<bar>days\<bar> \<le> 999999999 \<and> - 62135596800 \<le> now - 86400 * of_int days \<and>
     now - 86400 * of_int days < 253402300800) \<Longrightarrow>
   \<exists>e. and_then (timedelta_days days) (datetime_minus now) = Inl e"
  by (auto simp: and_then_def timedelta_days_def datetime_minus_def)

lemma fetch_direct:
  fixes pool_name :: "string option" and pool_id :: string and w :: world
  assumes "request_chart pool_id name w = (Responded resp, w1)"
    and "status_code resp = 200"
    and "json resp = Inr body" and "unwrap body = PList recs" and "recs \<noteq> []"
    and "DataFrame lib recs = Inr df" and "''timestamp'' \<in> set (column_names df)"
    and "name = display_name pool_name pool_id"
  shows "fetch_pool_chart_data lib pool_id pool_name days w =
     (case process_timestamp_column lib df name w1 of
        (Inl e, w2) \<Rightarrow>
          (None, print_line (''Error fetching chart data for '' @ name @ '': '' @ message e) w2)
      | (Inr None, w2) \<Rightarrow> (None, w2)
      | (Inr (Some g), w2) \<Rightarrow>
          (case and_then (timedelta_days days) (datetime_minus (clock w2)) of
             Inl e \<Rightarrow>
               (None,
                print_line (''Error fetching chart data for '' @ name @ '': '' @ message e) w2)
           | Inr c \<Rightarrow>
               (Some (rows_from c g),
                print_line (''Successfully fetched ''
                  @ show_nat (length (rows (rows_from c g)))
                  @ '' data points for '' @ name) w2)))"
proof -
  from assms(5) obtain x xs where recs: "recs = x # xs" by (cases recs) auto
  show ?thesis
    using assms(1-4,6,7) unfolding recs assms(8)
    by (simp add: fetch_pool_chart_data_def fetch_attempt_def chart_table_def
          Let_def split: prod.splits sum.splits option.splits)
qed

lemma index_times_filter:
  "index_times (filter (\<lambda>(i, cs). at_or_after c i) rs) = filter (\<lambda>t. c \<le> t) (index_times rs)"
  by (induction rs rule: index_times.induct) auto

lemma index_times_kept:
  "length (index_times (filter (\<lambda>(i, cs). at_or_after c i) rs))
     = length (filter (\<lambda>(i, cs). at_or_after c i) rs)"
  by (induction rs rule: index_times.induct) auto

lemma at_or_after_cases:
  "at_or_after c i = (case i of PTime t \<Rightarrow> c \<le> t | _ \<Rightarrow> False)"
  by (cases i) simp_all

lemma fetch_trace_direct:
  fixes pool_name :: "string option" and pool_id :: string and w :: world and days :: int
    and lib :: pandas
  assumes "request_chart pool_id name w = (Responded resp, w1)"
    and "status_code resp = 200"
    and "json resp = Inr body" and "unwrap body = PList recs" and "recs \<noteq> []"
    and "DataFrame lib recs = Inr df" and "''timestamp'' \<in> set (column_names df)"
    and "name = display_name pool_name pool_id"
  defines "r \<equiv> fetch_pool_chart_data lib pool_id pool_name days w"
  shows "if fails_by_name (epoch_seconds_attempt lib df) \<and>
            fails_by_name (date_string_attempt lib df)
         then fst r = None \<and> trace (snd r) = trace w1 @ [could_not_parse name]
         else \<exists>m. trace (snd r) = trace w1 @ [Printed m] \<and> Printed m \<noteq> could_not_parse name"
  unfolding r_def fetch_direct[OF assms(1-8)] process_timestamp_column_cases
  by (auto simp: print_line_def could_not_parse_def split: sum.splits option.splits)

lemma process_timestamp_column_result:
  "fst (process_timestamp_column lib df name w) = fst (process_timestamp_column lib df name w')"
  by (simp add: process_timestamp_column_cases)

lemma records_frame_chart: "DataFrame plain_pandas chart_records = Inr chart_frame"
  by (simp add: chart_defs)

lemma records_frame_dated: "DataFrame plain_pandas dated_records = Inr dated_frame"
  by (simp add: chart_defs)

lemma records_frame_garbled: "DataFrame plain_pandas garbled_records = Inr garbled_frame"
  by (simp add: chart_defs)

lemma records_frame_sparse: "DataFrame plain_pandas sparse_records = Inr sparse_frame"
  by (simp add: chart_defs)

lemma request_chart_chart_world:
  "request_chart usdc_pool name (chart_world recs)
     = (Responded (chart_response recs),
        (chart_world recs)\<lparr>sent := 1,
           trace := [Printed (''Fetching data for '' @ name @ ''...''),
                     Requested (chart_request usdc_pool)]\<rparr>)"
  by (simp add: request_chart_def requests_get_def print_line_def chart_world_def world_of_def
        scripted_def chart_response_def)

lemma request_chart_throttled_chart:
  "request_chart usdc_pool name (throttled_chart recs)
     = (Responded (chart_response recs),
        (throttled_chart recs)\<lparr>clock := 1700000005, sent := 2,
           trace := [Printed (''Fetching data for '' @ name @ ''...''),
                     Requested (chart_request usdc_pool),
                     Printed (''Rate limited for '' @ name @ '', waiting 5 seconds...''),
                     Slept 5, Requested (chart_request usdc_pool)]\<rparr>)"
  by (simp add: request_chart_def requests_get_def print_line_def time_sleep_def
        throttled_chart_def world_of_def scripted_def chart_response_def too_many_requests_def
        RATE_LIMIT_RETRY_DELAY_def)

lemma chart_response_body:
  "status_code (chart_response recs) = 200"
  "json (chart_response recs) = Inr (PDict [(''status'', PStr ''success''), (''data'', PList recs)])"
  "unwrap (PDict [(''status'', PStr ''success''), (''data'', PList recs)]) = PList recs"
  by (simp_all add: chart_response_def)

text \<open>
  Normalising the timestamps leaves the columns and the cells of every row as they
  are, when the payload has no \<^verbatim>\<open>date\<close> field of its own: only the index changes.
\<close>

lemma position_None: "c \<notin> fst ` set cols \<Longrightarrow> position c cols = None"
  by (induction cols) auto

lemma position_new:
  "c \<notin> fst ` set cols \<Longrightarrow> position c (cols @ [(c, d)]) = Some (length cols)"
  by (induction cols) auto

lemma without_last [simp]: "without (length xs) (xs @ [x]) = xs"
  by (simp add: without_def)

lemma cell_last [simp]: "cell (length xs) (xs @ [x]) = x"
  by (simp add: cell_def)

lemma dated_rows:
  assumes "length vs = length rs" and "\<forall>(i, cs) \<in> set rs. length cs = k"
  shows "map snd (map (\<lambda>(i, cs). (cell k cs, without k cs))
                   (map (\<lambda>((i, cs), v). (i, cs @ [v])) (zip rs vs))) = map snd rs"
  using assms by (induction vs rs rule: list_induct2) auto

lemma new_date_column:
  assumes "set_column ''date'' s df = Inr df1" and "index_by_date df1 = Inr g"
    and "''date'' \<notin> set (column_names df)"
    and "\<forall>(i, cs) \<in> set (rows df). length cs = length (columns df)"
  shows "columns g = columns df \<and> map snd (rows g) = map snd (rows df)"
proof -
  from assms(3) have nd: "''date'' \<notin> fst ` set (columns df)"
    by (simp add: column_names_def)
  from assms(1) have len: "length (snd s) = length (rows df)"
    and df1: "df1 = df\<lparr>columns := columns df @ [(''date'', fst s)],
                       rows := map (\<lambda>((i, cs), v). (i, cs @ [v])) (zip (rows df) (snd s))\<rparr>"
    by (auto simp: set_column_def position_None[OF nd] split: if_splits)
  have si: "set_index ''date'' df1 =
          Inr (df1\<lparr>columns := columns df, index_dtype := fst s,
                   rows := map (\<lambda>(i, cs). (cell (length (columns df)) cs,
                                              without (length (columns df)) cs))
                             (map (\<lambda>((i, cs), v). (i, cs @ [v])) (zip (rows df) (snd s)))\<rparr>)"
    unfolding df1 by (simp add: set_index_def position_new[OF nd])
  from assms(2) have "columns g = columns df"
    and "rows g = map (\<lambda>(i, cs). (cell (length (columns df)) cs,
                                              without (length (columns df)) cs))
                             (map (\<lambda>((i, cs), v). (i, cs @ [v])) (zip (rows df) (snd s)))"
    unfolding index_by_date_def si
    by (auto simp: and_then_def index_tz_def tz_localize_None_def split: dtype.splits if_splits)
  then show ?thesis
    using dated_rows[OF len assms(4)] by simp
qed

lemma map_sum_Some_iff [simp]: "map_sum id Some r = Inr (Some g) \<longleftrightarrow> r = Inr g"
  by (cases r) auto

lemma process_timestamp_column_rows:
  assumes "fst (process_timestamp_column lib df name w) = Inr (Some g)"
    and "''date'' \<notin> set (column_names df)"
    and "\<forall>(i, cs) \<in> set (rows df). length cs = length (columns df)"
  shows "columns g = columns df \<and> map snd (rows g) = map snd (rows df)"
proof -
  from assms(1) obtain df1 where a: "epoch_seconds_attempt lib df = Inr df1 \<or>
        date_string_attempt lib df = Inr df1" and g: "index_by_date df1 = Inr g"
    by (auto simp: process_timestamp_column_def split: sum.splits if_splits)
  from a obtain s where "set_column ''date'' s df = Inr df1"
    by (auto simp: epoch_seconds_attempt_def date_string_attempt_def and_then_def
             split: sum.splits)
  from new_date_column[OF this g assms(2,3)] show ?thesis .
qed

section \<open>Properties of \<^verbatim>\<open>fetch_pool_chart_data\<close>\<close>

text \<open>
  The statements below are about a call whose request is answered, at once or after
  one 429 answer, with status 200 and a JSON body that is, or wraps under \<^verbatim>\<open>data\<close>,
  a non-empty list \<open>recs\<close> of which \<^verbatim>\<open>pd.DataFrame\<close> makes a table \<open>df\<close> with a
  \<^verbatim>\<open>timestamp\<close> column. \<open>w1\<close> is the world in which that answer has arrived, \<open>now\<close> is
  its clock, and \<open>name\<close> is the name of the pool or, when none or an empty one is given,
  its id.
\<close>







section \<open>Properties of \<^verbatim>\<open>validate_dataframe\<close>\<close>

text \<open>
  C9. \<^verbatim>\<open>validate_dataframe\<close> is false for \<^verbatim>\<open>None\<close> and for an empty table, false
  when one of the listed required columns is not a column of the table, and true in
  every other case; in particular it is true for a table that is not empty when no list
  of required columns is given.
\<close>

theorem validate_dataframe_cases:
  "(df = None \<longrightarrow> \<not> validate_dataframe df required_columns) \<and>
   (\<forall>d. df = Some d \<and> is_empty d \<longrightarrow> \<not> validate_dataframe df required_columns) \<and>
   (\<forall>d cs c. df = Some d \<and> required_columns = Some cs \<and> c \<in> set cs \<and>
        c \<notin> set (column_names d) \<longrightarrow> \<not> validate_dataframe df required_columns) \<and>
   (\<forall>d. df = Some d \<and> \<not> is_empty d \<and>
        (\<forall>cs. required_columns = Some cs \<longrightarrow> set cs \<subseteq> set (column_names d)) \<longrightarrow>
        validate_dataframe df required_columns) \<and>
   (\<forall>d. df = Some d \<and> \<not> is_empty d \<and> required_columns = None \<longrightarrow>
        validate_dataframe df required_columns)"
  by (auto simp: validate_dataframe_def filter_empty_conv split: option.splits list.splits)

theorem validate_dataframe_cases_witness:
  "\<not> validate_dataframe None (Some [''apy'']) \<and>
   is_empty empty_frame \<and> \<not> validate_dataframe (Some empty_frame) None \<and>
   ''tvl'' \<in> set [''apy'', ''tvl''] \<and> ''tvl'' \<notin> set (column_names apy_frame) \<and>
   \<not> validate_dataframe (Some apy_frame) (Some [''apy'', ''tvl'']) \<and>
   \<not> is_empty apy_frame \<and> set [''apy''] \<subseteq> set (column_names apy_frame) \<and>
   validate_dataframe (Some apy_frame) (Some [''apy'']) \<and>
   validate_dataframe (Some apy_frame) None"
proof -
  have e: "is_empty empty_frame" by (simp add: is_empty_def empty_frame_def)
  have n: "\<not> is_empty apy_frame" by (simp add: is_empty_def apy_frame_def)
  have c: "column_names apy_frame = [''timestamp'', ''apy'']"
    by (simp add: column_names_def apy_frame_def)
  from validate_dataframe_cases[of None "Some [''apy'']"]
  have 1: "\<not> validate_dataframe None (Some [''apy''])" by simp
  from validate_dataframe_cases[of "Some empty_frame" None] e
  have 2: "\<not> validate_dataframe (Some empty_frame) None" by simp
  from validate_dataframe_cases[of "Some apy_frame" "Some [''apy'', ''tvl'']"] c
  have 3: "\<not> validate_dataframe (Some apy_frame) (Some [''apy'', ''tvl''])" by auto
  from validate_dataframe_cases[of "Some apy_frame" "Some [''apy'']"] c n
  have 4: "validate_dataframe (Some apy_frame) (Some [''apy''])" by simp
  from validate_dataframe_cases[of "Some apy_frame" None] n
  have 5: "validate_dataframe (Some apy_frame) None" by simp
  show ?thesis using 1 2 3 4 5 e n c by simp
qed

section \<open>Lemmas on \<^verbatim>\<open>load_data_from_db\<close>\<close>

lemma load_attempt_disk: "disk (snd (load_attempt lib fn w)) = disk w"
  by (simp add: load_attempt_def sqlite3_connect_def cursor_execute_def read_pool_data_def
        read_sql_def conn_close_def Let_def split: store.splits sum.splits option.splits prod.splits)

lemma load_data_from_db_disk: "disk (snd (load_data_from_db lib fn w)) = disk w"
proof (cases "load_attempt lib fn w")
  case (Pair r w1)
  with load_attempt_disk[of lib fn w] show ?thesis
    by (cases r) (simp_all add: load_data_from_db_def)
qed

lemma load_attempt_result:
  "disk w2 fn = disk w1 fn \<Longrightarrow> fst (load_attempt lib fn w2) = fst (load_attempt lib fn w1)"
  by (simp add: load_attempt_def sqlite3_connect_def cursor_execute_def read_pool_data_def
        read_sql_def conn_close_def Let_def split: store.splits sum.splits option.splits prod.splits)

lemma load_data_from_db_result:
  "fst (load_data_from_db lib fn w) =
     (case fst (load_attempt lib fn w) of Inr r \<Rightarrow> r | Inl e \<Rightarrow> (None, None))"
  by (simp add: load_data_from_db_def split: prod.splits sum.splits)

lemma position_names:
  "position c (map (\<lambda>n. (n, Object)) names) = Some k \<Longrightarrow>
   k < length names \<and> names ! k = c"
  by (induction names arbitrary: k) (auto split: if_splits)

lemma set_index_table_frame:
  assumes "position c (columns (table_frame t)) = Some k"
  shows "set_index c (table_frame t) = Inr (keyed_table k t)"
proof -
  from assms have k: "k < length (fst t)"
    using position_names[of c "fst t" k] by (simp add: table_frame_def)
  have rows: "map (\<lambda>(i, cs). (cell k cs, without k cs)) (zip is rs)
                = map (\<lambda>r. (cell k r, without k r)) rs"
    if "length is = length rs" for "is" :: "pyval list" and rs
    using that by (induction "is" rs rule: list_induct2) auto
  show ?thesis
    using assms k by (simp add: set_index_def table_frame_def keyed_table_def rows)
qed

lemma set_index_table_frame_None:
  assumes "position c (columns (table_frame t)) = None"
  shows "\<exists>e. set_index c (table_frame t) = Inl e"
  using assms by (simp add: set_index_def)

lemma position_first [simp]: "position c ((c, d) # cs) = Some 0"
  by simp

section \<open>Properties of \<^verbatim>\<open>load_data_from_db\<close>\<close>

text \<open>
  C3. The claim is that the connection is closed on every path on which it was opened.
  The function evaluated on a cache file that opens and has no \<^verbatim>\<open>pool_data\<close> table:
  both reads fail, the handler at lines 140 to 147 returns \<^verbatim>\<open>(None, None)\<close>, and the
  trace of the call ends there, with no \<open>Closed\<close> event after the \<open>Connected\<close> one.
\<close>

theorem load_data_from_db_unclosed:
  "fst (load_data_from_db plain_pandas DEFAULT_DB_FILENAME metadata_only) = (None, None) \<and>
   trace (snd (load_data_from_db plain_pandas DEFAULT_DB_FILENAME metadata_only)) =
     [Connected DEFAULT_DB_FILENAME, Executed list_tables_sql,
      Read_sql ''pool_data'' (Some ''index''), Read_sql ''pool_data'' None,
      Executed table_info_sql] \<and>
   Closed DEFAULT_DB_FILENAME
     \<notin> set (trace (snd (load_data_from_db plain_pandas DEFAULT_DB_FILENAME metadata_only)))"
  by (simp add: load_defs example_defs)

text \<open>
  C4, as stated: the first read uses the first column of \<^verbatim>\<open>pool_data\<close> as the index.
  On a table whose columns are \<^verbatim>\<open>USDC\<close> and \<^verbatim>\<open>index\<close>, in this order, the first
  read succeeds, the index holds the values of the column \<^verbatim>\<open>index\<close>, and the first
  column \<^verbatim>\<open>USDC\<close> is still a data column.
\<close>

theorem load_data_from_db_index_column_counterexample:
  "fst (load_data_from_db plain_pandas DEFAULT_DB_FILENAME cache_world) =
     (Some \<lparr>columns = [(''USDC'', Object)], index_dtype = Datetime None,
            rows = [(PTime (169998 / 100000), [PNum 5]), (PTime (169999 / 100000), [PNum 6])]\<rparr>,
      Some (table_frame metadata_table)) \<and>
   trace (snd (load_data_from_db plain_pandas DEFAULT_DB_FILENAME cache_world)) =
     [Connected DEFAULT_DB_FILENAME, Executed list_tables_sql,
      Read_sql ''pool_data'' (Some ''index''), Read_sql ''pool_metadata'' None,
      Closed DEFAULT_DB_FILENAME]"
  by (simp add: load_defs example_defs)

text \<open>
  C4, amended. On a cache file that is a database, the function first reads
  \<^verbatim>\<open>pool_data\<close> with the column named \<^verbatim>\<open>index\<close> as the index, wherever that column
  stands. When the table has no such column, it reads the table without an index and
  makes the first column the index, whatever its name. When the table does not exist,
  both reads fail and the function returns \<^verbatim>\<open>(None, None)\<close>.
\<close>

theorem load_data_from_db_pool_data:
  assumes "disk w fn = Database ts"
  shows "(\<forall>t k. map_of ts ''pool_data'' = Some t \<and>
            position ''index'' (columns (table_frame t)) = Some k \<longrightarrow>
            fst (fst (load_data_from_db lib fn w)) = Some (coerce_index lib (keyed_table k t)) \<and>
            trace (snd (load_data_from_db lib fn w)) =
              trace w @ [Connected fn, Executed list_tables_sql,
                         Read_sql ''pool_data'' (Some ''index''),
                         Read_sql ''pool_metadata'' None, Closed fn]) \<and>
         (\<forall>t. map_of ts ''pool_data'' = Some t \<and>
            position ''index'' (columns (table_frame t)) = None \<and> fst t \<noteq> [] \<longrightarrow>
            fst (fst (load_data_from_db lib fn w)) = Some (coerce_index lib (keyed_table 0 t)) \<and>
            trace (snd (load_data_from_db lib fn w)) =
              trace w @ [Connected fn, Executed list_tables_sql,
                         Read_sql ''pool_data'' (Some ''index''), Read_sql ''pool_data'' None,
                         Read_sql ''pool_metadata'' None, Closed fn]) \<and>
         (map_of ts ''pool_data'' = None \<longrightarrow>
            fst (load_data_from_db lib fn w) = (None, None) \<and>
            trace (snd (load_data_from_db lib fn w)) =
              trace w @ [Connected fn, Executed list_tables_sql,
                         Read_sql ''pool_data'' (Some ''index''), Read_sql ''pool_data'' None,
                         Executed table_info_sql])"
proof (intro conjI allI impI)
  fix t k
  assume a: "map_of ts ''pool_data'' = Some t \<and>
            position ''index'' (columns (table_frame t)) = Some k"
  then have s: "set_index ''index'' (table_frame t) = Inr (keyed_table k t)"
    by (simp add: set_index_table_frame)
  show "fst (fst (load_data_from_db lib fn w)) = Some (coerce_index lib (keyed_table k t))"
    using assms a s
    by (simp add: load_data_from_db_def load_attempt_def sqlite3_connect_def cursor_execute_def
          read_pool_data_def read_sql_def select_all_def conn_close_def Let_def
          split: sum.splits)
  show "trace (snd (load_data_from_db lib fn w)) =
              trace w @ [Connected fn, Executed list_tables_sql,
                         Read_sql ''pool_data'' (Some ''index''),
                         Read_sql ''pool_metadata'' None, Closed fn]"
    using assms a s
    by (simp add: load_data_from_db_def load_attempt_def sqlite3_connect_def cursor_execute_def
          read_pool_data_def read_sql_def select_all_def conn_close_def Let_def
          split: sum.splits)
next
  fix t
  assume a: "map_of ts ''pool_data'' = Some t \<and>
            position ''index'' (columns (table_frame t)) = None \<and> fst t \<noteq> []"
  then obtain e where s: "set_index ''index'' (table_frame t) = Inl e"
    using set_index_table_frame_None by blast
  from a obtain c cs where cs: "fst t = c # cs" by (cases "fst t") auto
  then have c0: "position c (columns (table_frame t)) = Some 0"
    and cols: "columns (table_frame t) = (c, Object) # map (\<lambda>n. (n, Object)) cs"
    by (simp_all add: table_frame_def)
  have p: "promote_first_column (table_frame t) = Inr (keyed_table 0 t)"
    unfolding promote_first_column_def cols using set_index_table_frame[OF c0] by simp
  show "fst (fst (load_data_from_db lib fn w)) = Some (coerce_index lib (keyed_table 0 t))"
    using assms a s p
    by (simp add: load_data_from_db_def load_attempt_def sqlite3_connect_def cursor_execute_def
          read_pool_data_def read_sql_def select_all_def conn_close_def Let_def and_then_def
          split: sum.splits)
  show "trace (snd (load_data_from_db lib fn w)) =
              trace w @ [Connected fn, Executed list_tables_sql,
                         Read_sql ''pool_data'' (Some ''index''), Read_sql ''pool_data'' None,
                         Read_sql ''pool_metadata'' None, Closed fn]"
    using assms a s p
    by (simp add: load_data_from_db_def load_attempt_def sqlite3_connect_def cursor_execute_def
          read_pool_data_def read_sql_def select_all_def conn_close_def Let_def and_then_def
          split: sum.splits)
next
  assume a: "map_of ts ''pool_data'' = None"
  show "fst (load_data_from_db lib fn w) = (None, None)"
    using assms a
    by (simp add: load_data_from_db_def load_attempt_def sqlite3_connect_def cursor_execute_def
          read_pool_data_def read_sql_def select_all_def conn_close_def Let_def and_then_def)
  show "trace (snd (load_data_from_db lib fn w)) =
              trace w @ [Connected fn, Executed list_tables_sql,
                         Read_sql ''pool_data'' (Some ''index''), Read_sql ''pool_data'' None,
                         Executed table_info_sql]"
    using assms a
    by (simp add: load_data_from_db_def load_attempt_def sqlite3_connect_def cursor_execute_def
          read_pool_data_def read_sql_def select_all_def conn_close_def Let_def and_then_def)
qed

theorem load_data_from_db_pool_data_witness:
  "disk cache_world DEFAULT_DB_FILENAME = Database cache_tables \<and>
   map_of cache_tables ''pool_data'' = Some pool_table \<and>
   position ''index'' (columns (table_frame pool_table)) = Some 1 \<and>
   fst (fst (load_data_from_db plain_pandas DEFAULT_DB_FILENAME cache_world))
     = Some (coerce_index plain_pandas (keyed_table 1 pool_table)) \<and>
   disk dated_world DEFAULT_DB_FILENAME = Database dated_tables \<and>
   map_of dated_tables ''pool_data'' = Some dated_table \<and>
   position ''index'' (columns (table_frame dated_table)) = None \<and> fst dated_table \<noteq> [] \<and>
   fst (fst (load_data_from_db plain_pandas DEFAULT_DB_FILENAME dated_world))
     = Some (coerce_index plain_pandas (keyed_table 0 dated_table)) \<and>
   disk metadata_only DEFAULT_DB_FILENAME = Database metadata_tables \<and>
   map_of metadata_tables ''pool_data'' = None \<and>
   fst (load_data_from_db plain_pandas DEFAULT_DB_FILENAME metadata_only) = (None, None)"
proof -
  have d1: "disk cache_world DEFAULT_DB_FILENAME = Database cache_tables"
    by (simp add: cache_world_def)
  have m1: "map_of cache_tables ''pool_data'' = Some pool_table"
    by (simp add: cache_tables_def)
  have p1: "position ''index'' (columns (table_frame pool_table)) = Some 1"
    by (simp add: table_frame_def pool_table_def)
  have d2: "disk dated_world DEFAULT_DB_FILENAME = Database dated_tables"
    by (simp add: dated_world_def)
  have m2: "map_of dated_tables ''pool_data'' = Some dated_table"
    by (simp add: dated_tables_def)
  have p2: "position ''index'' (columns (table_frame dated_table)) = None"
    "fst dated_table \<noteq> []"
    by (simp_all add: table_frame_def dated_table_def)
  have d3: "disk metadata_only DEFAULT_DB_FILENAME = Database metadata_tables"
    by (simp add: metadata_only_def)
  have m3: "map_of metadata_tables ''pool_data'' = None"
    by (simp add: metadata_tables_def)
  from load_data_from_db_pool_data[OF d1, of plain_pandas] m1 p1
  have r1: "fst (fst (load_data_from_db plain_pandas DEFAULT_DB_FILENAME cache_world))
     = Some (coerce_index plain_pandas (keyed_table 1 pool_table))"
    by blast
  from load_data_from_db_pool_data[OF d2, of plain_pandas] m2 p2
  have r2: "fst (fst (load_data_from_db plain_pandas DEFAULT_DB_FILENAME dated_world))
     = Some (coerce_index plain_pandas (keyed_table 0 dated_table))"
    by blast
  from load_data_from_db_pool_data[OF d3, of plain_pandas] m3
  have r3: "fst (load_data_from_db plain_pandas DEFAULT_DB_FILENAME metadata_only) = (None, None)"
    by blast
  show ?thesis using d1 m1 p1 d2 m2 p2 d3 m3 r1 r2 r3 by (simp only: simp_thms)
qed



end
